theory Spec2Isabelle
  imports Complex_Main "HOL-Library.AList"
begin

section \<open>Data model\<close>

text \<open>
  Modelled from the spec: the enumeration \<^verbatim>\<open>ErrorCode\<close> of \<^verbatim>\<open>parcels.kernels.error\<close>, a
  module that \<^verbatim>\<open>kernel.py\<close> imports and that is not part of the sources: a closed
  enumeration with the five values below.
\<close>

datatype ErrorCode = Success | Repeat | Delete | ErrorOutOfBounds | Error

text \<open>
  A raised Python object, classified the way the handler chain of \<^verbatim>\<open>execute_python\<close>
  classifies it: \<^verbatim>\<open>except FieldSamplingError\<close> first, then \<^verbatim>\<open>except Exception\<close>.
  \<open>KeyError\<close> and \<open>AttributeError\<close> are the exceptions the code of \<^verbatim>\<open>kernel.py\<close>
  can raise by itself (\<^verbatim>\<open>recovery_map[p.state]\<close> with the missing key, a missing attribute);
  \<open>OtherException\<close> is any further instance of \<^verbatim>\<open>Exception\<close>; \<open>SystemExit\<close> stands for
  the objects outside the \<^verbatim>\<open>Exception\<close> hierarchy (\<^verbatim>\<open>SystemExit\<close>,
  \<^verbatim>\<open>KeyboardInterrupt\<close>), which neither handler catches. The string is the payload.
\<close>

datatype pyexn =
    FieldSamplingError string
  | KeyError ErrorCode
  | AttributeError string
  | OtherException string
  | SystemExit string

fun isinstance_FieldSamplingError :: "pyexn \<Rightarrow> bool" where
  "isinstance_FieldSamplingError (FieldSamplingError m) = True"
| "isinstance_FieldSamplingError e = False"

fun isinstance_Exception :: "pyexn \<Rightarrow> bool" where
  "isinstance_Exception (SystemExit m) = False"
| "isinstance_Exception e = True"

text \<open>
  Modelled from the spec: the class \<^verbatim>\<open>Particle\<close>, which is not part of the sources, with
  the built-in attributes of every particle type. Python floats are idealised as reals:
  rounding, infinities and NaN are not modelled. The attribute \<^verbatim>\<open>id\<close> is called \<open>pid\<close>.
\<close>

record Particle =
  lon :: real
  lat :: real
  dep :: real
  time :: real
  dt :: real
  pid :: int
  state :: ErrorCode
  exception :: "pyexn option"

text \<open>
  Modelled from the spec: the class \<^verbatim>\<open>ParticleSet\<close>, which is not part of the sources,
  with the two attributes that \<^verbatim>\<open>kernel.py\<close> reads: the list \<^verbatim>\<open>pset.particles\<close> (in insertion
  order) and the grid \<^verbatim>\<open>pset.grid\<close>. The grid is opaque to the executor, which only hands
  it to the kernel.
\<close>

record 'g ParticleSet =
  particles :: "Particle list"
  grid :: 'g

text \<open>
  What a call \<^verbatim>\<open>pyfunc(p, grid, time, dt)\<close> does: it returns \<^verbatim>\<open>None\<close> or an error code, or
  it raises; in both cases it may have written to the particle before. A Python callable
  is not a function of its arguments alone: it reads and writes the user context it runs
  in (the globals of the user's module, into which \<^verbatim>\<open>kernel.py\<close> puts \<^verbatim>\<open>math\<close>, \<^verbatim>\<open>random\<close>
  and the merged kernels, the state of the random generator, the variables of closures).
  This context is a value of the type \<open>'w\<close>, which every call takes and returns.
\<close>

datatype outcome = Return "ErrorCode option" | Raise pyexn

type_synonym ('g, 'w) pyfunc =
  "Particle \<Rightarrow> 'g \<Rightarrow> real \<Rightarrow> real \<Rightarrow> 'w \<Rightarrow> (outcome \<times> Particle) \<times> 'w"

text \<open>
  A recovery kernel is called with the particle alone; it may write to the particle or
  raise, and it runs in the user context as well.
\<close>

type_synonym 'w recovery_kernel = "Particle \<Rightarrow> 'w \<Rightarrow> (pyexn + Particle) \<times> 'w"

section \<open>Kernel objects\<close>

text \<open>
  Modelled from the spec: the class \<^verbatim>\<open>ParticleType\<close>, which is not part of the sources,
  with the attributes that \<^verbatim>\<open>kernel.py\<close> reads: \<^verbatim>\<open>ptype.name\<close>, \<^verbatim>\<open>ptype.uses_jit\<close> and
  \<^verbatim>\<open>ptype._cache_key\<close>.
\<close>

record ParticleType =
  ptype_name :: string
  uses_jit :: bool
  ptype_cache_key :: string

text \<open>
  Modelled from the spec: the class \<^verbatim>\<open>Field\<close>, which is not part of the sources. Of a
  field, \<^verbatim>\<open>kernel.py\<close> reads \<^verbatim>\<open>field.units.__class__.__name__\<close> (here \<open>units_class_name\<close>) and
  hands \<^verbatim>\<open>field.ctypes_struct\<close> to the native loop (here the field itself).
\<close>

record Field =
  units_class_name :: string

text \<open>
  An \<^verbatim>\<open>ast.FunctionDef\<close> node with the attributes \<^verbatim>\<open>merge\<close> sets. Statements and the
  parameter list are kept as text.
\<close>

record FunctionDef =
  fd_name :: string
  args :: "string list"
  body :: "string list"
  decorator_list :: "string list"
  lineno :: nat
  col_offset :: nat

text \<open>
  A Python function object: \<^verbatim>\<open>__name__\<close>, \<^verbatim>\<open>__code__.co_varnames\<close>, the text
  \<^verbatim>\<open>inspect.getsource\<close> finds for it, and what a call does.
\<close>

record ('g, 'w) pyfunction =
  fn_name :: string
  co_varnames :: "string list"
  getsource :: string
  call :: "('g, 'w) pyfunc"

text \<open>
  The native \<^verbatim>\<open>particle_loop(n, data, endtime, dt, fields..., consts...)\<close> of a compiled
  library. It works on the packed particle data in place, in the user context of the
  call; \<open>None\<close> is a call that does not return.
\<close>

type_synonym 'w particle_loop =
  "nat \<Rightarrow> Particle list \<Rightarrow> real \<Rightarrow> real \<Rightarrow> Field list \<Rightarrow> real list \<Rightarrow> 'w
     \<Rightarrow> (Particle list \<times> 'w) option"

text \<open>The attributes a kernel has only when its particle type uses JIT.\<close>

record JITCode =
  field_args :: "(string \<times> Field) list"
  const_args :: "(string \<times> real) list"
  ccode :: string
  src_file :: string
  lib_file :: string
  log_file :: string

text \<open>
  A \<^verbatim>\<open>Kernel\<close> object. \<open>pyfunc\<close> is what calling \<^verbatim>\<open>self.pyfunc\<close> does; \<open>lib_function\<close> is
  \<^verbatim>\<open>self._function\<close>, which exists only after \<^verbatim>\<open>load_lib\<close>.
\<close>

record ('g, 'w) Kernel =
  kgrid :: 'g
  ptype :: ParticleType
  funcname :: string
  funcvars :: "string list"
  funccode :: string
  py_ast :: FunctionDef
  pyfunc :: "('g, 'w) pyfunc"
  name :: string
  jit :: "JITCode option"
  lib_function :: "'w particle_loop option"

text \<open>
  The collaborators of \<^verbatim>\<open>kernel.py\<close> that are not part of it, taken as parameters:
  \<^item> \<open>parse_function src\<close> is \<^verbatim>\<open>ast.parse(src).body[0]\<close>;
  \<^item> \<open>exec_function fd funcname\<close> is the block under \<^verbatim>\<open>if pyfunc is None\<close> of the
    constructor: it takes the user context from the call stack, puts \<^verbatim>\<open>math\<close>, \<^verbatim>\<open>random\<close>
    and \<^verbatim>\<open>ErrorCode\<close> into it, runs \<^verbatim>\<open>exec(compile(Module(body=[fd]), ...), user_ctx)\<close>,
    which binds the name of the function definition in the user context, and gives
    \<^verbatim>\<open>user_ctx[funcname]\<close>; it changes the user context, and the function it gives reads
    the user context of each of its calls;
  \<^item> \<open>KernelGenerator_generate\<close> gives \<^verbatim>\<open>field_args\<close>, \<^verbatim>\<open>const_args\<close> and the C code of the
    kernel, \<open>LoopGenerator_generate\<close> the C code with the outer loop;
  \<^item> \<open>get_cache_dir\<close>, \<open>path_join\<close> (\<^verbatim>\<open>os.path.join\<close>), \<open>md5_hexdigest\<close>
    (\<^verbatim>\<open>md5(key.encode('utf-8')).hexdigest()\<close>) and \<open>load_library\<close>
    (\<^verbatim>\<open>npct.load_library(lib_file, '.').particle_loop\<close>).
\<close>

record ('g, 'w) env =
  parse_function :: "string \<Rightarrow> pyexn + FunctionDef"
  exec_function :: "FunctionDef \<Rightarrow> string \<Rightarrow> 'w \<Rightarrow> (pyexn + ('g, 'w) pyfunc) \<times> 'w"
  KernelGenerator_generate ::
    "'g \<Rightarrow> ParticleType \<Rightarrow> FunctionDef \<Rightarrow> string list
       \<Rightarrow> pyexn + ((string \<times> Field) list \<times> (string \<times> real) list \<times> string)"
  LoopGenerator_generate ::
    "'g \<Rightarrow> ParticleType \<Rightarrow> string \<Rightarrow> (string \<times> Field) list \<Rightarrow> (string \<times> real) list
       \<Rightarrow> string \<Rightarrow> pyexn + string"
  get_cache_dir :: string
  path_join :: "string \<Rightarrow> string \<Rightarrow> string"
  md5_hexdigest :: "string \<Rightarrow> string"
  load_library :: "string \<Rightarrow> pyexn + 'w particle_loop"

subsection \<open>\<^verbatim>\<open>fix_indentation\<close>\<close>

text \<open>\<^verbatim>\<open>sep.join(xs)\<close>\<close>

fun str_join :: "string \<Rightarrow> string list \<Rightarrow> string" where
  "str_join sep [] = []"
| "str_join sep [x] = x"
| "str_join sep (x # y # ys) = x @ sep @ str_join sep (y # ys)"

text \<open>\<^verbatim>\<open>s.split(c)\<close> for a one-character separator: never an empty list.\<close>

fun str_split :: "char \<Rightarrow> string \<Rightarrow> string list" where
  "str_split c [] = [[]]"
| "str_split c (x # xs) =
     (if x = c then [] # str_split c xs
      else (case str_split c xs of
              [] \<Rightarrow> [[x]]
            | l # ls \<Rightarrow> (x # l) # ls))"

text \<open>\<^verbatim>\<open>l.replace(old, '', 1)\<close> for a non-empty \<^verbatim>\<open>old\<close>: the first occurrence is cut out.\<close>

fun replace_first :: "string \<Rightarrow> string \<Rightarrow> string" where
  "replace_first old [] = []"
| "replace_first old (x # xs) =
     (if take (length old) (x # xs) = old then drop (length old) (x # xs)
      else x # replace_first old xs)"

text \<open>The characters that \<^verbatim>\<open>\s\<close> matches in a byte string.\<close>

definition is_space :: "char \<Rightarrow> bool" where
  "is_space c = (c \<in> set [CHR '' '', CHR 0x09, CHR 0x0A, CHR 0x0B, CHR 0x0C, CHR 0x0D])"

definition fix_indentation :: "string \<Rightarrow> string" where
  "fix_indentation string =
     (let lines = str_split (CHR 0x0A) string;
          indent = takeWhile is_space (hd lines)
      in if indent \<noteq> []
         then str_join [CHR 0x0A] (map (replace_first indent) lines)
         else str_join [CHR 0x0A] lines)"

subsection \<open>\<^verbatim>\<open>Kernel.__init__\<close> and \<^verbatim>\<open>Kernel._cache_key\<close>\<close>

text \<open>
  \<^verbatim>\<open>x or y\<close> for a string or list \<^verbatim>\<open>x\<close> that may be \<^verbatim>\<open>None\<close>: \<^verbatim>\<open>y\<close> is evaluated,
  and may raise, only when \<^verbatim>\<open>x\<close> is \<^verbatim>\<open>None\<close> or empty.
\<close>

fun py_or :: "'a list option \<Rightarrow> (pyexn + 'a list) \<Rightarrow> pyexn + 'a list" where
  "py_or None y = y"
| "py_or (Some x) y = (if x \<noteq> [] then Inr x else y)"

text \<open>
  An attribute of \<^verbatim>\<open>pyfunc\<close>, which is \<^verbatim>\<open>None\<close> on the path that \<^verbatim>\<open>merge\<close> takes.
\<close>

definition pyfunc_attr ::
  "('g, 'w) pyfunction option \<Rightarrow> string \<Rightarrow> (('g, 'w) pyfunction \<Rightarrow> 'a) \<Rightarrow> pyexn + 'a" where
  "pyfunc_attr pf attr sel =
     (case pf of None \<Rightarrow> Inl (AttributeError attr) | Some f \<Rightarrow> Inr (sel f))"

text \<open>\<^verbatim>\<open>"%s:%s" % (name, field.units.__class__.__name__)\<close>\<close>

definition field_key :: "string \<times> Field \<Rightarrow> string" where
  "field_key nf = fst nf @ '':'' @ units_class_name (snd nf)"

text \<open>
  The property \<^verbatim>\<open>_cache_key\<close>, as a function of the three attributes it reads:
  \<^verbatim>\<open>self.name\<close>, \<^verbatim>\<open>self.ptype\<close> and \<^verbatim>\<open>self.field_args\<close>.
\<close>

definition cache_key_of ::
  "('g, 'w) env \<Rightarrow> string \<Rightarrow> ParticleType \<Rightarrow> (string \<times> Field) list \<Rightarrow> string" where
  "cache_key_of env nm pt fargs =
     (let field_keys = str_join ''-'' (map field_key fargs);
          key = nm @ ptype_cache_key pt @ field_keys
      in md5_hexdigest env key)"

text \<open>The property on a kernel: without \<^verbatim>\<open>field_args\<close> the attribute lookup fails.\<close>

definition cache_key :: "('g, 'w) env \<Rightarrow> ('g, 'w) Kernel \<Rightarrow> pyexn + string" where
  "cache_key env k =
     (case jit k of
        None \<Rightarrow> Inl (AttributeError ''field_args'')
      | Some j \<Rightarrow> Inr (cache_key_of env (name k) (ptype k) (field_args j)))"

text \<open>The block under \<^verbatim>\<open>if self.ptype.uses_jit\<close> of the constructor.\<close>

definition generate_jit ::
  "('g, 'w) env \<Rightarrow> 'g \<Rightarrow> ParticleType \<Rightarrow> string \<Rightarrow> string \<Rightarrow> FunctionDef \<Rightarrow> string list
     \<Rightarrow> pyexn + JITCode" where
  "generate_jit env g pt nm fname fd fvars =
     (case KernelGenerator_generate env g pt fd fvars of
        Inl e \<Rightarrow> Inl e
      | Inr (fargs, cargs, kernel_ccode) \<Rightarrow>
          (case LoopGenerator_generate env g pt fname fargs cargs kernel_ccode of
             Inl e \<Rightarrow> Inl e
           | Inr cc \<Rightarrow>
               (let basename = path_join env (get_cache_dir env) (cache_key_of env nm pt fargs)
                in Inr \<lparr>field_args = fargs, const_args = cargs, ccode = cc,
                        src_file = basename @ ''.c'',
                        lib_file = basename @ ''.so'',
                        log_file = basename @ ''.log''\<rparr>)))"

text \<open>
  \<^verbatim>\<open>Kernel(grid, ptype, pyfunc, funcname, funccode, py_ast, funcvars)\<close>; every argument
  after \<^verbatim>\<open>ptype\<close> defaults to \<^verbatim>\<open>None\<close>. The constructor runs in the user context \<open>w\<close> and
  changes it where it executes the function definition.
\<close>

definition Kernel_init ::
  "('g, 'w) env \<Rightarrow> 'g \<Rightarrow> ParticleType \<Rightarrow> ('g, 'w) pyfunction option \<Rightarrow> string option
     \<Rightarrow> string option \<Rightarrow> FunctionDef option \<Rightarrow> string list option \<Rightarrow> 'w
     \<Rightarrow> (pyexn + ('g, 'w) Kernel) \<times> 'w" where
  "Kernel_init env g pt pf funcname_arg funccode_arg py_ast_arg funcvars_arg w =
     (case py_or funcname_arg (pyfunc_attr pf ''__name__'' fn_name) of
        Inl e \<Rightarrow> (Inl e, w)
      | Inr fname \<Rightarrow>
     (case py_or funcvars_arg (pyfunc_attr pf ''__code__'' co_varnames) of
        Inl e \<Rightarrow> (Inl e, w)
      | Inr fvars \<Rightarrow>
     (case py_or funccode_arg (pyfunc_attr pf ''__code__'' getsource) of
        Inl e \<Rightarrow> (Inl e, w)
      | Inr fcode \<Rightarrow>
     (case (case py_ast_arg of
              Some fd \<Rightarrow> Inr fd
            | None \<Rightarrow> parse_function env (fix_indentation fcode)) of
        Inl e \<Rightarrow> (Inl e, w)
      | Inr fd \<Rightarrow>
     (case (case pf of
              None \<Rightarrow> exec_function env fd fname w
            | Some f \<Rightarrow> (Inr (call f), w)) of
        (Inl e, w') \<Rightarrow> (Inl e, w')
      | (Inr fn, w') \<Rightarrow>
     (let nm = ptype_name pt @ fname in
      case (if uses_jit pt
            then map_sum id Some (generate_jit env g pt nm fname fd fvars)
            else Inr None) of
        Inl e \<Rightarrow> (Inl e, w')
      | Inr j \<Rightarrow>
          (Inr \<lparr>kgrid = g, ptype = pt, funcname = fname, funcvars = fvars, funccode = fcode,
                py_ast = fd, pyfunc = fn, name = nm, jit = j, lib_function = None\<rparr>, w')))))))"

text \<open>\<^verbatim>\<open>Kernel.load_lib\<close>\<close>

definition load_lib :: "('g, 'w) env \<Rightarrow> ('g, 'w) Kernel \<Rightarrow> pyexn + ('g, 'w) Kernel" where
  "load_lib env k =
     (case jit k of
        None \<Rightarrow> Inl (AttributeError ''lib_file'')
      | Some j \<Rightarrow>
          (case load_library env (lib_file j) of
             Inl e \<Rightarrow> Inl e
           | Inr f \<Rightarrow> Inr (k\<lparr>lib_function := Some f\<rparr>)))"

subsection \<open>\<^verbatim>\<open>Kernel.merge\<close>, \<^verbatim>\<open>__add__\<close> and \<^verbatim>\<open>__radd__\<close>\<close>

text \<open>The node \<^verbatim>\<open>func_ast\<close> that \<^verbatim>\<open>merge\<close> builds.\<close>

definition func_ast :: "('g, 'w) Kernel \<Rightarrow> ('g, 'w) Kernel \<Rightarrow> FunctionDef" where
  "func_ast self kern =
     \<lparr>fd_name = funcname self @ funcname kern, args = args (py_ast self),
      body = body (py_ast self) @ body (py_ast kern),
      decorator_list = [], lineno = 1, col_offset = 0\<rparr>"

definition merge ::
  "('g, 'w) env \<Rightarrow> ('g, 'w) Kernel \<Rightarrow> ('g, 'w) Kernel \<Rightarrow> 'w \<Rightarrow> (pyexn + ('g, 'w) Kernel) \<times> 'w" where
  "merge env self kern w =
     (let fname = funcname self @ funcname kern
      in Kernel_init env (kgrid self) (ptype self) None (Some fname)
           (Some (funccode self @ funccode kern)) (Some (func_ast self kern))
           (Some (funcvars self @ funcvars kern)) w)"

text \<open>
  The operand of \<^verbatim>\<open>+\<close> is a \<^verbatim>\<open>Kernel\<close> (\<open>Inr\<close>) or a plain function (\<open>Inl\<close>), which is
  wrapped into a kernel first.
\<close>

definition as_kernel ::
  "('g, 'w) env \<Rightarrow> ('g, 'w) Kernel \<Rightarrow> ('g, 'w) pyfunction + ('g, 'w) Kernel \<Rightarrow> 'w
     \<Rightarrow> (pyexn + ('g, 'w) Kernel) \<times> 'w" where
  "as_kernel env self kern w =
     (case kern of
        Inr k \<Rightarrow> (Inr k, w)
      | Inl f \<Rightarrow> Kernel_init env (kgrid self) (ptype self) (Some f) None None None None w)"

definition add ::
  "('g, 'w) env \<Rightarrow> ('g, 'w) Kernel \<Rightarrow> ('g, 'w) pyfunction + ('g, 'w) Kernel \<Rightarrow> 'w
     \<Rightarrow> (pyexn + ('g, 'w) Kernel) \<times> 'w" where
  "add env self kern w =
     (case as_kernel env self kern w of
        (Inl e, w') \<Rightarrow> (Inl e, w')
      | (Inr k, w') \<Rightarrow> merge env self k w')"

definition radd ::
  "('g, 'w) env \<Rightarrow> ('g, 'w) Kernel \<Rightarrow> ('g, 'w) pyfunction + ('g, 'w) Kernel \<Rightarrow> 'w
     \<Rightarrow> (pyexn + ('g, 'w) Kernel) \<times> 'w" where
  "radd env self kern w =
     (case as_kernel env self kern w of
        (Inl e, w') \<Rightarrow> (Inl e, w')
      | (Inr k, w') \<Rightarrow> merge env k self w')"

section \<open>The interpreted core loop: \<^verbatim>\<open>Kernel.execute_python\<close>\<close>

text \<open>
  The \<^verbatim>\<open>try\<close> statement of the loop body: the call, and the two handlers, which turn a
  caught exception into a result code and store it on the particle. An object that is no
  instance of \<^verbatim>\<open>Exception\<close> is not caught.
\<close>

definition try_pyfunc ::
  "('g, 'w) pyfunc \<Rightarrow> 'g \<Rightarrow> Particle \<Rightarrow> real \<Rightarrow> 'w
     \<Rightarrow> (pyexn + (ErrorCode option \<times> Particle)) \<times> 'w" where
  "try_pyfunc f g p d w =
     (case f p g (time p) d w of
        ((Return res, p'), w') \<Rightarrow> (Inr (res, p'), w')
      | ((Raise e, p'), w') \<Rightarrow>
          if isinstance_FieldSamplingError e
            then (Inr (Some ErrorOutOfBounds, p'\<lparr>exception := Some e\<rparr>), w')
          else if isinstance_Exception e
            then (Inr (Some Error, p'\<lparr>exception := Some e\<rparr>), w')
          else (Inl e, w'))"

text \<open>\<^verbatim>\<open>min(abs(p.dt), abs(endtime - p.time))\<close>\<close>

definition dt_pos_of :: "real \<Rightarrow> Particle \<Rightarrow> real" where
  "dt_pos_of endtime p = min \<bar>dt p\<bar> \<bar>endtime - time p\<bar>"

text \<open>
  One pass through the body of \<^verbatim>\<open>while dt_pos > 0\<close>, and what the loop does next:
  \<^verbatim>\<open>continue\<close> with the particle and the new \<^verbatim>\<open>dt_pos\<close>, \<^verbatim>\<open>break\<close>, or an exception
  that no handler caught.
\<close>

datatype loop_ctl = Continue Particle real | Break Particle | Propagate pyexn

definition loop_body ::
  "('g, 'w) pyfunc \<Rightarrow> 'g \<Rightarrow> real \<Rightarrow> real \<Rightarrow> Particle \<Rightarrow> real \<Rightarrow> 'w \<Rightarrow> loop_ctl \<times> 'w" where
  "loop_body f g endtime sign p dt_pos w =
     (case try_pyfunc f g p (sign * dt_pos) w of
        (Inl e, w') \<Rightarrow> (Propagate e, w')
      | (Inr (res, p1), w') \<Rightarrow>
          (let p2 = (case res of None \<Rightarrow> p1 | Some r \<Rightarrow> p1\<lparr>state := r\<rparr>) in
           if res = None \<or> res = Some Success then
             (let p3 = p2\<lparr>time := time p2 + sign * dt_pos\<rparr>
              in (Continue p3 (dt_pos_of endtime p3), w'))
           else if res = Some Repeat then
             (Continue p2 (dt_pos_of endtime p2), w')
           else (Break p2, w')))"

text \<open>
  The \<^verbatim>\<open>while\<close> loop of one particle. It need not terminate: \<open>None\<close> is a loop that
  runs forever, \<open>Some (Inl e, w)\<close> an exception that leaves \<^verbatim>\<open>execute_python\<close>.
\<close>

partial_function (option) time_loop ::
  "('g, 'w) pyfunc \<Rightarrow> 'g \<Rightarrow> real \<Rightarrow> real \<Rightarrow> Particle \<Rightarrow> real \<Rightarrow> 'w
     \<Rightarrow> ((pyexn + Particle) \<times> 'w) option" where
  "time_loop f g endtime sign p dt_pos w =
     (if dt_pos > 0 then
        (case loop_body f g endtime sign p dt_pos w of
           (Continue p' dt_pos', w') \<Rightarrow> time_loop f g endtime sign p' dt_pos' w'
         | (Break p', w') \<Rightarrow> Some (Inr p', w')
         | (Propagate e, w') \<Rightarrow> Some (Inl e, w'))
      else Some (Inr p, w))"

declare time_loop.simps [code]

text \<open>\<^verbatim>\<open>for p in pset.particles\<close>: the particles in order, each through its loop.\<close>

fun for_particles ::
  "(Particle \<Rightarrow> 'w \<Rightarrow> ((pyexn + Particle) \<times> 'w) option) \<Rightarrow> Particle list \<Rightarrow> 'w
     \<Rightarrow> ((pyexn + Particle list) \<times> 'w) option" where
  "for_particles f [] w = Some (Inr [], w)"
| "for_particles f (p # ps) w =
     (case f p w of
        None \<Rightarrow> None
      | Some (Inl e, w') \<Rightarrow> Some (Inl e, w')
      | Some (Inr p', w') \<Rightarrow>
          (case for_particles f ps w' of
             None \<Rightarrow> None
           | Some (Inl e, w'') \<Rightarrow> Some (Inl e, w'')
           | Some (Inr ps', w'') \<Rightarrow> Some (Inr (p' # ps'), w'')))"

text \<open>\<^verbatim>\<open>sign = 1. if dt > 0. else -1.\<close>\<close>

definition sign_of :: "real \<Rightarrow> real" where
  "sign_of dt_arg = (if dt_arg > 0 then 1 else - 1)"

definition execute_python ::
  "('g, 'w) Kernel \<Rightarrow> 'g ParticleSet \<Rightarrow> real \<Rightarrow> real \<Rightarrow> 'w
     \<Rightarrow> ((pyexn + 'g ParticleSet) \<times> 'w) option" where
  "execute_python self pset endtime dt_arg w =
     (let sign = sign_of dt_arg in
      case for_particles
             (\<lambda>p. time_loop (pyfunc self) (grid pset) endtime sign p (dt_pos_of endtime p))
             (particles pset) w of
        None \<Rightarrow> None
      | Some (Inl e, w') \<Rightarrow> Some (Inl e, w')
      | Some (Inr ps, w') \<Rightarrow> Some (Inr (pset\<lparr>particles := ps\<rparr>), w'))"

section \<open>The native core loop: \<^verbatim>\<open>Kernel.execute_jit\<close>\<close>

definition execute_jit ::
  "('g, 'w) Kernel \<Rightarrow> 'g ParticleSet \<Rightarrow> real \<Rightarrow> real \<Rightarrow> 'w
     \<Rightarrow> ((pyexn + 'g ParticleSet) \<times> 'w) option" where
  "execute_jit self pset endtime dt_arg w =
     (case jit self of
        None \<Rightarrow> Some (Inl (AttributeError ''field_args''), w)
      | Some j \<Rightarrow>
          (case lib_function self of
             None \<Rightarrow> Some (Inl (AttributeError ''_function''), w)
           | Some particle_loop \<Rightarrow>
               (case particle_loop (length (particles pset)) (particles pset) endtime dt_arg
                       (map snd (field_args j)) (map snd (const_args j)) w of
                  None \<Rightarrow> None
                | Some (ps, w') \<Rightarrow> Some (Inr (pset\<lparr>particles := ps\<rparr>), w'))))"

section \<open>\<^verbatim>\<open>Kernel.execute\<close>: deletion and recovery\<close>

text \<open>
  Modelled from the spec: \<^verbatim>\<open>ParticleSet.remove\<close> with a list of indices, which is not part
  of the sources: a batch delete that is stable on the rows that are not removed.
\<close>

definition remove :: "'g ParticleSet \<Rightarrow> nat list \<Rightarrow> 'g ParticleSet" where
  "remove pset indices =
     pset\<lparr>particles :=
       map snd (filter (\<lambda>ip. fst ip \<notin> set indices) (enumerate 0 (particles pset)))\<rparr>"

text \<open>The local function \<^verbatim>\<open>remove_deleted\<close> of \<^verbatim>\<open>execute\<close>.\<close>

definition remove_deleted :: "'g ParticleSet \<Rightarrow> 'g ParticleSet" where
  "remove_deleted pset =
     (let indices = map fst (filter (\<lambda>ip. state (snd ip) \<in> set [Delete])
                                    (enumerate 0 (particles pset)))
      in remove pset indices)"

text \<open>
  \<^verbatim>\<open>[p for p in pset.particles if p.state not in [ErrorCode.Success, ErrorCode.Repeat]]\<close>.
  The list holds references to the particle objects of the set; a reference is modelled
  by the position of the particle in \<^verbatim>\<open>pset.particles\<close>.
\<close>

definition error_particles :: "'g ParticleSet \<Rightarrow> nat list" where
  "error_particles pset =
     map fst (filter (\<lambda>ip. state (snd ip) \<notin> set [Success, Repeat])
                     (enumerate 0 (particles pset)))"

text \<open>
  \<^verbatim>\<open>for p in error_particles\<close>: the lookup in the recovery map (a \<^verbatim>\<open>KeyError\<close> when the
  state has no entry), the reset of the state, the call of the recovery kernel, whose
  writes land in the particle of the set.
\<close>

fun apply_recovery ::
  "(ErrorCode \<rightharpoonup> 'w recovery_kernel) \<Rightarrow> nat list \<Rightarrow> Particle list \<Rightarrow> 'w
     \<Rightarrow> (pyexn + Particle list) \<times> 'w" where
  "apply_recovery recovery_map [] ps w = (Inr ps, w)"
| "apply_recovery recovery_map (i # is) ps w =
     (let p = ps ! i in
      case recovery_map (state p) of
        None \<Rightarrow> (Inl (KeyError (state p)), w)
      | Some recovery_kernel \<Rightarrow>
          (case recovery_kernel (p\<lparr>state := Success\<rparr>) w of
             (Inl e, w') \<Rightarrow> (Inl e, w')
           | (Inr p', w') \<Rightarrow> apply_recovery recovery_map is (ps[i := p']) w'))"

text \<open>The choice between the two core loops, made at both places of \<^verbatim>\<open>execute\<close>.\<close>

definition core_loop ::
  "('g, 'w) Kernel \<Rightarrow> 'g ParticleSet \<Rightarrow> real \<Rightarrow> real \<Rightarrow> 'w
     \<Rightarrow> ((pyexn + 'g ParticleSet) \<times> 'w) option" where
  "core_loop self pset endtime dt_arg w =
     (if uses_jit (ptype self) then execute_jit self pset endtime dt_arg w
      else execute_python self pset endtime dt_arg w)"

text \<open>
  The body of \<^verbatim>\<open>while len(error_particles) > 0\<close> up to the point where the error
  particles are collected again: recovery, removal, core loop.
\<close>

definition recovery_pass ::
  "('g, 'w) Kernel \<Rightarrow> real \<Rightarrow> real \<Rightarrow> (ErrorCode \<rightharpoonup> 'w recovery_kernel) \<Rightarrow> 'g ParticleSet
     \<Rightarrow> nat list \<Rightarrow> 'w \<Rightarrow> ((pyexn + 'g ParticleSet) \<times> 'w) option" where
  "recovery_pass self endtime dt_arg recovery_map pset errs w =
     (case apply_recovery recovery_map errs (particles pset) w of
        (Inl e, w') \<Rightarrow> Some (Inl e, w')
      | (Inr ps, w') \<Rightarrow>
          core_loop self (remove_deleted (pset\<lparr>particles := ps\<rparr>)) endtime dt_arg w')"

partial_function (option) recovery_loop ::
  "('g, 'w) Kernel \<Rightarrow> real \<Rightarrow> real \<Rightarrow> (ErrorCode \<rightharpoonup> 'w recovery_kernel) \<Rightarrow> 'g ParticleSet
     \<Rightarrow> nat list \<Rightarrow> 'w \<Rightarrow> ((pyexn + 'g ParticleSet) \<times> 'w) option" where
  "recovery_loop self endtime dt_arg recovery_map pset errs w =
     (if length errs > 0 then
        (case recovery_pass self endtime dt_arg recovery_map pset errs w of
           None \<Rightarrow> None
         | Some (Inl e, w') \<Rightarrow> Some (Inl e, w')
         | Some (Inr pset', w') \<Rightarrow>
             recovery_loop self endtime dt_arg recovery_map pset' (error_particles pset') w')
      else Some (Inr pset, w))"

declare recovery_loop.simps [code]

text \<open>
  \<^verbatim>\<open>execute(pset, endtime, dt, recovery=None)\<close>. The built-in map
  \<^verbatim>\<open>parcels.kernels.error.recovery_map\<close> is not part of the sources and is a parameter.
\<close>

definition execute ::
  "(ErrorCode \<rightharpoonup> 'w recovery_kernel) \<Rightarrow> ('g, 'w) Kernel \<Rightarrow> 'g ParticleSet \<Rightarrow> real \<Rightarrow> real
     \<Rightarrow> (ErrorCode \<rightharpoonup> 'w recovery_kernel) option \<Rightarrow> 'w
     \<Rightarrow> ((pyexn + 'g ParticleSet) \<times> 'w) option" where
  "execute recovery_base_map self pset endtime dt_arg recovery w =
     (let recovery' = (case recovery of None \<Rightarrow> Map.empty | Some r \<Rightarrow> r);
          recovery_map = recovery_base_map ++ recovery'
      in case core_loop self pset endtime dt_arg w of
           None \<Rightarrow> None
         | Some (Inl e, w') \<Rightarrow> Some (Inl e, w')
         | Some (Inr pset1, w') \<Rightarrow>
             (let pset2 = remove_deleted pset1
              in recovery_loop self endtime dt_arg recovery_map pset2 (error_particles pset2) w'))"

section \<open>The recovery step in the words of the specification\<close>

text \<open>
  For a particle of the error set: look up \<^verbatim>\<open>recovery_map[p.state]\<close>, set
  \<^verbatim>\<open>p.state = Success\<close>, then invoke the recovery kernel on the particle.
\<close>

definition spec_recover ::
  "(ErrorCode \<rightharpoonup> 'w recovery_kernel) \<Rightarrow> Particle \<Rightarrow> 'w \<Rightarrow> (pyexn + Particle) \<times> 'w" where
  "spec_recover recovery_map p w =
     (case recovery_map (state p) of
        None \<Rightarrow> (Inl (KeyError (state p)), w)
      | Some recovery_kernel \<Rightarrow> recovery_kernel (p\<lparr>state := Success\<rparr>) w)"

text \<open>
  The same for each particle of the set in turn whose state is neither \<open>Success\<close> nor
  \<open>Repeat\<close>; the other particles stay as they are, and the first exception ends the pass.
\<close>

fun spec_recover_all ::
  "(ErrorCode \<rightharpoonup> 'w recovery_kernel) \<Rightarrow> Particle list \<Rightarrow> 'w \<Rightarrow> (pyexn + Particle list) \<times> 'w" where
  "spec_recover_all recovery_map [] w = (Inr [], w)"
| "spec_recover_all recovery_map (p # ps) w =
     (if state p \<noteq> Success \<and> state p \<noteq> Repeat then
        (case spec_recover recovery_map p w of
           (Inl e, w') \<Rightarrow> (Inl e, w')
         | (Inr p', w') \<Rightarrow>
             (case spec_recover_all recovery_map ps w' of
                (Inl e, w'') \<Rightarrow> (Inl e, w'')
              | (Inr ps', w'') \<Rightarrow> (Inr (p' # ps'), w'')))
      else
        (case spec_recover_all recovery_map ps w of
           (Inl e, w') \<Rightarrow> (Inl e, w')
         | (Inr ps', w') \<Rightarrow> (Inr (p # ps'), w')))"

section \<open>Example inputs\<close>

text \<open>
  The user context of the examples: the global names of the user's module with their
  values, in the order of their first binding. A value is a number, a function (with the
  statements of its body) or an object that \<^verbatim>\<open>kernel.py\<close> has put there (\<^verbatim>\<open>math\<close>,
  \<^verbatim>\<open>random\<close>, \<^verbatim>\<open>ErrorCode\<close>).
\<close>

datatype pyval = Number int | Function "string list" | Imported string

type_synonym user_ctx = "(string \<times> pyval) list"

text \<open>A particle at longitude \<open>x\<close> with the given time, time step and state.\<close>

definition particle_at :: "real \<Rightarrow> real \<Rightarrow> real \<Rightarrow> ErrorCode \<Rightarrow> Particle" where
  "particle_at x t d s =
     \<lparr>lon = x, lat = 0, dep = 0, time = t, dt = d, pid = 0, state = s, exception = None\<rparr>"

definition pset_of :: "Particle list \<Rightarrow> unit ParticleSet" where
  "pset_of ps = \<lparr>particles = ps, grid = ()\<rparr>"

text \<open>
  The kernel of \<^verbatim>\<open>test_pset_remove_kernel\<close>: \<^verbatim>\<open>if particle.lon >= .4: particle.delete()\<close>,
  where \<^verbatim>\<open>delete\<close> marks the particle with the state \<open>Delete\<close>; no explicit return.
\<close>

definition DeleteKernel :: "(unit, user_ctx) pyfunc" where
  "DeleteKernel particle g t d w =
     (if lon particle \<ge> 4 / 10 then ((Return None, particle\<lparr>state := Delete\<rparr>), w)
      else ((Return None, particle), w))"

definition scipy_ptype :: ParticleType where
  "scipy_ptype = \<lparr>ptype_name = ''Particle'', uses_jit = False, ptype_cache_key = ''Particle''\<rparr>"

text \<open>A kernel object of the interpreted path around a given function.\<close>

definition scipy_kernel :: "string \<Rightarrow> (unit, user_ctx) pyfunc \<Rightarrow> (unit, user_ctx) Kernel" where
  "scipy_kernel nm f =
     \<lparr>kgrid = (), ptype = scipy_ptype, funcname = nm,
      funcvars = [''particle'', ''grid'', ''time'', ''dt''],
      funccode = ''def '' @ nm,
      py_ast = \<lparr>fd_name = nm, args = [''particle'', ''grid'', ''time'', ''dt''],
                body = [''pass''], decorator_list = [], lineno = 1, col_offset = 0\<rparr>,
      pyfunc = f, name = ''Particle'' @ nm, jit = None, lib_function = None\<rparr>"

text \<open>
  A kernel with one branch for each kind of result: no explicit return (after moving the
  particle), \<open>Success\<close>, \<open>Repeat\<close> (after moving the particle, so that the next call
  succeeds) and \<open>Delete\<close>.
\<close>

definition Staged :: "(unit, user_ctx) pyfunc" where
  "Staged particle g t d w =
     (if lon particle < 1 then ((Return None, particle\<lparr>lon := lon particle + d / 2\<rparr>), w)
      else if lon particle < 2 then ((Return (Some Success), particle), w)
      else if lon particle < 3 then ((Return (Some Repeat), particle\<lparr>lon := 1\<rparr>), w)
      else ((Return (Some Delete), particle), w))"

text \<open>
  A kernel that samples a field on the domain \<open>[0, 1]\<close> at the particle and moves the
  particle east; sampling outside the domain raises \<^verbatim>\<open>FieldSamplingError\<close>.
\<close>

definition AdvectEast :: "(unit, user_ctx) pyfunc" where
  "AdvectEast particle g t d w =
     (if lon particle < 0 \<or> 1 < lon particle
      then ((Raise (FieldSamplingError ''U''), particle), w)
      else ((Return None, particle\<lparr>lon := lon particle + d\<rparr>), w))"

text \<open>A kernel that fails with an exception of another class on every call.\<close>

definition Fails :: "(unit, user_ctx) pyfunc" where
  "Fails particle g t d w = ((Raise (OtherException ''ZeroDivisionError''), particle), w)"

text \<open>A kernel that does nothing and returns nothing.\<close>

definition Idle :: "(unit, user_ctx) pyfunc" where
  "Idle particle g t d w = ((Return None, particle), w)"

text \<open>
  A kernel that returns \<open>Repeat\<close> for a particle east of longitude \<open>1/2\<close> and leaves it
  alone, and that returns nothing for any other particle.
\<close>

definition RepeatEast :: "(unit, user_ctx) pyfunc" where
  "RepeatEast particle g t d w =
     (if 1 / 2 < lon particle then ((Return (Some Repeat), particle), w)
      else ((Return None, particle), w))"

text \<open>A kernel that returns \<open>Repeat\<close> on every call and sets the time step to zero.\<close>

definition GiveUp :: "(unit, user_ctx) pyfunc" where
  "GiveUp particle g t d w = ((Return (Some Repeat), particle\<lparr>dt := 0\<rparr>), w)"

text \<open>
  Recovery kernels: one that does nothing, one that marks the particle as failed again,
  one that marks it for deletion, and one that counts in the global \<^verbatim>\<open>retries\<close>: it marks
  the particle as failed again while the counter is positive, and for deletion after that.
\<close>

definition recovery_kernel_ignore :: "user_ctx recovery_kernel" where
  "recovery_kernel_ignore p w = (Inr p, w)"

definition recovery_kernel_mark_error :: "user_ctx recovery_kernel" where
  "recovery_kernel_mark_error p w = (Inr (p\<lparr>state := Error\<rparr>), w)"

definition recovery_kernel_delete :: "user_ctx recovery_kernel" where
  "recovery_kernel_delete p w = (Inr (p\<lparr>state := Delete\<rparr>), w)"

definition recovery_kernel_retry :: "user_ctx recovery_kernel" where
  "recovery_kernel_retry p w =
     (case map_of w ''retries'' of
        Some (Number n) \<Rightarrow>
          if 0 < n then (Inr (p\<lparr>state := Error\<rparr>), AList.update ''retries'' (Number (n - 1)) w)
          else (Inr (p\<lparr>state := Delete\<rparr>), w)
      | _ \<Rightarrow> (Inl (OtherException ''NameError''), w))"

text \<open>The particle on which \<open>Fails\<close> has failed, and the particle that \<open>AdvectEast\<close> has
  moved out of the domain.\<close>

definition failed_particle :: Particle where
  "failed_particle =
     (particle_at 0 0 1 Error)\<lparr>exception := Some (OtherException ''ZeroDivisionError'')\<rparr>"

definition outside_particle :: Particle where
  "outside_particle =
     \<lparr>lon = 199 / 100, lat = 0, dep = 0, time = 1, dt = 1, pid = 0, state = ErrorOutOfBounds,
      exception = Some (FieldSamplingError ''U'')\<rparr>"

text \<open>
  An interpreter for the bodies of the example kernels, which are made of two statements:
  \<^verbatim>\<open>pass\<close>, and \<^verbatim>\<open>particle.delete() if BC else None\<close>, which reads the global \<^verbatim>\<open>BC\<close> of the
  user context (a \<^verbatim>\<open>NameError\<close> when the name is not bound; a number is true when it is
  not zero, any other object is true).
\<close>

definition truthy :: "pyval \<Rightarrow> bool" where
  "truthy v = (case v of Number n \<Rightarrow> n \<noteq> 0 | Function b \<Rightarrow> True | Imported m \<Rightarrow> True)"

definition run_stmt :: "string \<Rightarrow> Particle \<Rightarrow> user_ctx \<Rightarrow> pyexn + Particle" where
  "run_stmt stmt particle w =
     (if stmt = ''pass'' then Inr particle
      else if stmt = ''particle.delete() if BC else None'' then
        (case map_of w ''BC'' of
           None \<Rightarrow> Inl (OtherException ''NameError'')
         | Some v \<Rightarrow> Inr (if truthy v then particle\<lparr>state := Delete\<rparr> else particle))
      else Inl (OtherException ''NotImplementedError''))"

fun run_stmts :: "string list \<Rightarrow> Particle \<Rightarrow> user_ctx \<Rightarrow> outcome \<times> Particle" where
  "run_stmts [] particle w = (Return None, particle)"
| "run_stmts (stmt # stmts) particle w =
     (case run_stmt stmt particle w of
        Inl e \<Rightarrow> (Raise e, particle)
      | Inr particle' \<Rightarrow> run_stmts stmts particle' w)"

definition run_body :: "string list \<Rightarrow> (unit, user_ctx) pyfunc" where
  "run_body stmts particle g t d w = (run_stmts stmts particle w, w)"

text \<open>
  The source of a function of the examples, on one line:
  \<^verbatim>\<open>def name(particle, grid, time, dt): stmt\<close>, and the function object.
\<close>

definition def_line :: "string \<Rightarrow> string \<Rightarrow> string" where
  "def_line nm stmt = ''def '' @ nm @ ''(particle, grid, time, dt): '' @ stmt"

definition pyfunction_of :: "string \<Rightarrow> string \<Rightarrow> (unit, user_ctx) pyfunction" where
  "pyfunction_of nm stmt =
     \<lparr>fn_name = nm, co_varnames = [''particle'', ''grid'', ''time'', ''dt''],
      getsource = def_line nm stmt, call = run_body [stmt]\<rparr>"

text \<open>
  Collaborators for the examples. The parser reads the name between \<^verbatim>\<open>def\<close> and the
  parameter list, and the statement after the colon. Executing a function definition puts
  \<^verbatim>\<open>math\<close>, \<^verbatim>\<open>random\<close> and \<^verbatim>\<open>ErrorCode\<close> into the user context, binds the name of the
  definition there, and looks up the function name: a function runs its body in the user
  context of the call, any other object is not callable. The code generator finds the
  fields \<open>U\<close> and \<open>V\<close>, and the digest is a stand-in that keeps its argument readable.
\<close>

definition example_exec ::
  "FunctionDef \<Rightarrow> string \<Rightarrow> user_ctx \<Rightarrow> (pyexn + (unit, user_ctx) pyfunc) \<times> user_ctx" where
  "example_exec fd fname w =
     (let w1 = AList.update ''math'' (Imported ''math'') w;
          w2 = AList.update ''random'' (Imported ''random'') w1;
          w3 = AList.update ''ErrorCode'' (Imported ''ErrorCode'') w2;
          w4 = AList.update (fd_name fd) (Function (body fd)) w3
      in case map_of w4 fname of
           None \<Rightarrow> (Inl (OtherException ''KeyError''), w4)
         | Some (Function stmts) \<Rightarrow> (Inr (run_body stmts), w4)
         | Some v \<Rightarrow> (Inr (\<lambda>particle g t d v. ((Raise (OtherException ''TypeError''), particle), v)), w4))"

definition example_env :: "(unit, user_ctx) env" where
  "example_env =
     \<lparr>parse_function =
        (\<lambda>src. Inr \<lparr>fd_name = takeWhile (\<lambda>c. c \<noteq> CHR ''('') (drop 4 src),
                     args = [''particle'', ''grid'', ''time'', ''dt''],
                     body = [drop 2 (dropWhile (\<lambda>c. c \<noteq> CHR '':'') src)],
                     decorator_list = [], lineno = 1, col_offset = 0\<rparr>),
      exec_function = example_exec,
      KernelGenerator_generate =
        (\<lambda>g pt fd fvars.
           Inr ([(''U'', \<lparr>units_class_name = ''Geographic''\<rparr>),
                 (''V'', \<lparr>units_class_name = ''GeographicPolar''\<rparr>)],
                [], ''void '' @ fd_name fd)),
      LoopGenerator_generate = (\<lambda>g pt fname fargs cargs cc. Inr (cc @ ''; void particle_loop'')),
      get_cache_dir = ''/tmp/parcels'',
      path_join = (\<lambda>a b. a @ ''/'' @ b),
      md5_hexdigest = (\<lambda>key. ''md5:'' @ key),
      load_library = (\<lambda>file. Inl (OtherException ''OSError''))\<rparr>"

definition jit_ptype :: ParticleType where
  "jit_ptype = \<lparr>ptype_name = ''JITParticle'', uses_jit = True, ptype_cache_key = ''JITParticle:lon:lat''\<rparr>"

text \<open>
  The kernel objects of the functions \<open>A\<close>, \<open>B\<close> and \<open>C\<close> of a user module with the global
  \<^verbatim>\<open>BC = 0\<close>, where \<open>A\<close> and \<open>C\<close> do nothing and \<open>B\<close> deletes the particle if \<^verbatim>\<open>BC\<close> is true,
  and the kernel objects of their concatenations.
\<close>

definition source_kernel ::
  "string \<Rightarrow> nat \<Rightarrow> string \<Rightarrow> string list \<Rightarrow> (unit, user_ctx) Kernel" where
  "source_kernel nm n code stmts =
     \<lparr>kgrid = (), ptype = scipy_ptype, funcname = nm,
      funcvars = concat (replicate n [''particle'', ''grid'', ''time'', ''dt'']),
      funccode = code,
      py_ast = \<lparr>fd_name = nm, args = [''particle'', ''grid'', ''time'', ''dt''],
                body = stmts, decorator_list = [], lineno = 1, col_offset = 0\<rparr>,
      pyfunc = run_body stmts, name = ''Particle'' @ nm, jit = None, lib_function = None\<rparr>"

definition stmt_B :: string where
  "stmt_B = ''particle.delete() if BC else None''"

definition kernel_A :: "(unit, user_ctx) Kernel" where
  "kernel_A = source_kernel ''A'' 1 (def_line ''A'' ''pass'') [''pass'']"

definition kernel_B :: "(unit, user_ctx) Kernel" where
  "kernel_B = source_kernel ''B'' 1 (def_line ''B'' stmt_B) [stmt_B]"


definition kernel_AB :: "(unit, user_ctx) Kernel" where
  "kernel_AB =
     source_kernel ''AB'' 2 (def_line ''A'' ''pass'' @ def_line ''B'' stmt_B) [''pass'', stmt_B]"



text \<open>
  The user context of that module at the start, and after the construction of
  \<open>(A + B) + C\<close> and of \<open>A + (B + C)\<close>.
\<close>

definition ctx0 :: user_ctx where
  "ctx0 = [(''BC'', Number 0)]"

definition imports_ctx :: user_ctx where
  "imports_ctx =
     [(''math'', Imported ''math''), (''random'', Imported ''random''),
      (''ErrorCode'', Imported ''ErrorCode'')]"

definition ctx_AB :: user_ctx where
  "ctx_AB = ctx0 @ imports_ctx @ [(''AB'', Function [''pass'', stmt_B])]"











text \<open>A kernel object of the native path, with the code the example generator gives.\<close>

definition AdvectionEE_code :: JITCode where
  "AdvectionEE_code =
     \<lparr>field_args = [(''U'', \<lparr>units_class_name = ''Geographic''\<rparr>),
                    (''V'', \<lparr>units_class_name = ''GeographicPolar''\<rparr>)],
      const_args = [],
      ccode = ''void AdvectionEE; void particle_loop'',
      src_file = ''/tmp/parcels/md5:JITParticleAdvectionEEJITParticle:lon:latU:Geographic-V:GeographicPolar.c'',
      lib_file = ''/tmp/parcels/md5:JITParticleAdvectionEEJITParticle:lon:latU:Geographic-V:GeographicPolar.so'',
      log_file = ''/tmp/parcels/md5:JITParticleAdvectionEEJITParticle:lon:latU:Geographic-V:GeographicPolar.log''\<rparr>"

definition AdvectionEE_jit :: "(unit, user_ctx) Kernel" where
  "AdvectionEE_jit =
     \<lparr>kgrid = (), ptype = jit_ptype, funcname = ''AdvectionEE'',
      funcvars = [''particle'', ''grid'', ''time'', ''dt''],
      funccode = def_line ''AdvectionEE'' ''pass'',
      py_ast = \<lparr>fd_name = ''AdvectionEE'', args = [''particle'', ''grid'', ''time'', ''dt''],
                body = [''pass''], decorator_list = [], lineno = 1, col_offset = 0\<rparr>,
      pyfunc = run_body [''pass''], name = ''JITParticleAdvectionEE'', jit = Some AdvectionEE_code,
      lib_function = None\<rparr>"

section \<open>Deletion and error particles\<close>

lemma enumerate_filter_snd:
  "map snd (filter (\<lambda>ip. Q (snd ip)) (enumerate n xs)) = filter Q xs"
  by (induction xs arbitrary: n) auto

lemma enumerate_index_selected:
  assumes "ip \<in> set (enumerate n xs)"
  shows "fst ip \<in> set (map fst (filter (\<lambda>ip. Q (snd ip)) (enumerate n xs))) \<longleftrightarrow> Q (snd ip)"
proof
  assume "fst ip \<in> set (map fst (filter (\<lambda>ip. Q (snd ip)) (enumerate n xs)))"
  then obtain jq where jq: "jq \<in> set (enumerate n xs)" "Q (snd jq)" "fst jq = fst ip"
    by auto
  have "distinct (map fst (enumerate n xs))" by simp
  with jq(1,3) assms have "jq = ip"
    by (metis eq_key_imp_eq_value prod.collapse)
  with jq(2) show "Q (snd ip)" by simp
next
  assume "Q (snd ip)"
  with assms show "fst ip \<in> set (map fst (filter (\<lambda>ip. Q (snd ip)) (enumerate n xs)))"
    by force
qed

lemma remove_selected:
  "map snd (filter (\<lambda>ip. fst ip \<notin> set (map fst (filter (\<lambda>ip. Q (snd ip)) (enumerate n xs))))
                   (enumerate n xs)) = filter (\<lambda>x. \<not> Q x) xs"
proof -
  have "filter (\<lambda>ip. fst ip \<notin> set (map fst (filter (\<lambda>ip. Q (snd ip)) (enumerate n xs))))
                   (enumerate n xs) = filter (\<lambda>ip. \<not> Q (snd ip)) (enumerate n xs)"
    by (rule filter_cong[OF refl]) (simp only: enumerate_index_selected)
  then show ?thesis
    using enumerate_filter_snd[of "\<lambda>x. \<not> Q x" n xs] by simp
qed

lemma particles_remove_deleted:
  "particles (remove_deleted pset) = filter (\<lambda>p. state p \<noteq> Delete) (particles pset)"
  unfolding remove_deleted_def remove_def Let_def
  using remove_selected[of "\<lambda>p. state p \<in> set [Delete]" 0 "particles pset"]
  by simp

lemma grid_remove_deleted: "grid (remove_deleted pset) = grid pset"
  by (simp add: remove_deleted_def remove_def)

lemma error_particles_Nil:
  "error_particles pset = [] \<longleftrightarrow> (\<forall>p \<in> set (particles pset). state p = Success \<or> state p = Repeat)"
proof -
  let ?Q = "\<lambda>p. state p \<notin> set [Success, Repeat]"
  let ?L = "filter (\<lambda>ip. ?Q (snd ip)) (enumerate 0 (particles pset))"
  have "(map fst ?L = []) = (map snd ?L = [])"
    by (simp only: map_is_Nil_conv)
  also have "map snd ?L = filter ?Q (particles pset)"
    by (rule enumerate_filter_snd)
  finally have "(error_particles pset = []) = (filter ?Q (particles pset) = [])"
    by (simp only: error_particles_def)
  then show ?thesis by (auto simp: filter_empty_conv)
qed

lemma set_error_particles:
  "set (error_particles pset) =
     {i. i < length (particles pset) \<and> state (particles pset ! i) \<noteq> Success
          \<and> state (particles pset ! i) \<noteq> Repeat}"
  unfolding error_particles_def
  by (auto simp: in_set_enumerate_eq image_iff)

lemma remove_deleted_eq:
  "remove_deleted pset = pset\<lparr>particles := filter (\<lambda>p. state p \<noteq> Delete) (particles pset)\<rparr>"
  using particles_remove_deleted[of pset]
  by (simp add: remove_deleted_def remove_def)

lemma recovery_loop_no_errors_aux:
  assumes "recovery_loop self endtime d rm pset errs w = Some r"
  shows "errs = error_particles pset \<longrightarrow> (\<forall>out w'. r = (Inr out, w') \<longrightarrow> error_particles out = [])"
proof (rule recovery_loop.raw_induct
         [where P = "\<lambda>self endtime d rm pset errs w r.
                       errs = error_particles pset \<longrightarrow>
                       (\<forall>out w'. r = (Inr out, w') \<longrightarrow> error_particles out = [])",
          OF _ assms], goal_cases)
  case (1 loop self endtime d rm pset errs w r)
  note step = 1(1) and body = 1(2)
  show ?case
  proof (cases "length errs > 0")
    case False
    with body show ?thesis by auto
  next
    case True
    with body consider e w' where "r = (Inl e, w')"
      | pset' w' where "loop self endtime d rm pset' (error_particles pset') w' = Some r"
      by (auto split: option.splits sum.splits prod.splits)
    then show ?thesis
    proof cases
      case 1
      then show ?thesis by simp
    next
      case 2
      from step[OF this] show ?thesis by simp
    qed
  qed
qed

lemma recovery_loop_no_errors:
  assumes "recovery_loop self endtime d rm pset (error_particles pset) w = Some (Inr out, w')"
  shows "error_particles out = []"
  using recovery_loop_no_errors_aux[OF assms] by simp

section \<open>The inner loop of \<^verbatim>\<open>execute_python\<close>\<close>

lemma try_pyfunc_Return:
  "f p g (time p) d w = ((Return res, p'), w') \<Longrightarrow> try_pyfunc f g p d w = (Inr (res, p'), w')"
  by (simp add: try_pyfunc_def)

lemma try_pyfunc_Raise:
  "f p g (time p) d w = ((Raise e, p'), w') \<Longrightarrow>
   try_pyfunc f g p d w =
     (if isinstance_FieldSamplingError e
        then (Inr (Some ErrorOutOfBounds, p'\<lparr>exception := Some e\<rparr>), w')
      else if isinstance_Exception e then (Inr (Some Error, p'\<lparr>exception := Some e\<rparr>), w')
      else (Inl e, w'))"
  by (simp add: try_pyfunc_def)

lemma time_loop_exit: "\<not> 0 < d \<Longrightarrow> time_loop f g endtime s p d w = Some (Inr p, w)"
  by (subst time_loop.simps) simp

lemma time_loop_step:
  "0 < d \<Longrightarrow> time_loop f g endtime s p d w =
     (case loop_body f g endtime s p d w of
        (Continue p' d', w') \<Rightarrow> time_loop f g endtime s p' d' w'
      | (Break p', w') \<Rightarrow> Some (Inr p', w')
      | (Propagate e, w') \<Rightarrow> Some (Inl e, w'))"
  by (subst time_loop.simps) simp

lemma loop_body_None:
  "try_pyfunc f g p (s * d) w = (Inr (None, p'), w') \<Longrightarrow>
   loop_body f g endtime s p d w =
     (Continue (p'\<lparr>time := time p' + s * d\<rparr>) (min \<bar>dt p'\<bar> \<bar>endtime - (time p' + s * d)\<bar>), w')"
  by (simp add: loop_body_def dt_pos_of_def)

lemma loop_body_Success:
  "try_pyfunc f g p (s * d) w = (Inr (Some Success, p'), w') \<Longrightarrow>
   loop_body f g endtime s p d w =
     (Continue (p'\<lparr>state := Success, time := time p' + s * d\<rparr>)
               (min \<bar>dt p'\<bar> \<bar>endtime - (time p' + s * d)\<bar>), w')"
  by (simp add: loop_body_def dt_pos_of_def)

lemma loop_body_Repeat:
  "try_pyfunc f g p (s * d) w = (Inr (Some Repeat, p'), w') \<Longrightarrow>
   loop_body f g endtime s p d w =
     (Continue (p'\<lparr>state := Repeat\<rparr>) (min \<bar>dt p'\<bar> \<bar>endtime - time p'\<bar>), w')"
  by (simp add: loop_body_def dt_pos_of_def)

lemma loop_body_other:
  "try_pyfunc f g p (s * d) w = (Inr (Some r, p'), w') \<Longrightarrow> r \<noteq> Success \<Longrightarrow> r \<noteq> Repeat \<Longrightarrow>
   loop_body f g endtime s p d w = (Break (p'\<lparr>state := r\<rparr>), w')"
  by (simp add: loop_body_def)

lemma loop_body_uncaught:
  "try_pyfunc f g p (s * d) w = (Inl e, w') \<Longrightarrow> loop_body f g endtime s p d w = (Propagate e, w')"
  by (simp add: loop_body_def)

lemma time_loop_Return_None:
  assumes "0 < d" and "f p g (time p) (s * d) w = ((Return None, p'), w')"
  shows "time_loop f g endtime s p d w =
         time_loop f g endtime s (p'\<lparr>time := time p' + s * d\<rparr>)
           (min \<bar>dt p'\<bar> \<bar>endtime - (time p' + s * d)\<bar>) w'"
  using assms
  by (simp add: time_loop_step loop_body_None try_pyfunc_Return)

lemma time_loop_Return_Success:
  assumes "0 < d" and "f p g (time p) (s * d) w = ((Return (Some Success), p'), w')"
  shows "time_loop f g endtime s p d w =
         time_loop f g endtime s (p'\<lparr>state := Success, time := time p' + s * d\<rparr>)
           (min \<bar>dt p'\<bar> \<bar>endtime - (time p' + s * d)\<bar>) w'"
  using assms
  by (simp add: time_loop_step loop_body_Success try_pyfunc_Return)

lemma time_loop_Return_Repeat:
  assumes "0 < d" and "f p g (time p) (s * d) w = ((Return (Some Repeat), p'), w')"
  shows "time_loop f g endtime s p d w =
         time_loop f g endtime s (p'\<lparr>state := Repeat\<rparr>) (min \<bar>dt p'\<bar> \<bar>endtime - time p'\<bar>) w'"
  using assms
  by (simp add: time_loop_step loop_body_Repeat try_pyfunc_Return)

lemma time_loop_break:
  assumes "0 < d" and "try_pyfunc f g p (s * d) w = (Inr (Some r, p'), w')"
    and "r \<noteq> Success" and "r \<noteq> Repeat"
  shows "time_loop f g endtime s p d w = Some (Inr (p'\<lparr>state := r\<rparr>), w')"
  using assms
  by (simp add: time_loop_step loop_body_other)

lemma for_particles_Inr_iff:
  "for_particles F ps w = Some (Inr ps', w') \<longleftrightarrow>
     length ps' = length ps \<and>
     (\<exists>ws. length ws = Suc (length ps) \<and> ws ! 0 = w \<and> ws ! length ps = w' \<and>
        (\<forall>i < length ps. F (ps ! i) (ws ! i) = Some (Inr (ps' ! i), ws ! Suc i)))"
  (is "?L ps w ps' \<longleftrightarrow> ?R ps w ps'")
proof (induction ps arbitrary: w ps')
  case Nil
  show ?case
  proof
    assume "?L [] w ps'"
    then have "ps' = []" "w' = w" by simp_all
    then have "length [w] = Suc (length ([]::Particle list)) \<and> [w] ! 0 = w \<and> [w] ! 0 = w'"
      by simp
    with \<open>ps' = []\<close> show "?R [] w ps'" by (intro conjI exI[of _ "[w]"]) simp_all
  next
    assume "?R [] w ps'"
    then show "?L [] w ps'" by auto
  qed
next
  case (Cons p ps)
  show ?case
  proof
    assume L: "?L (p # ps) w ps'"
    then obtain q w1 qs where
      first: "F p w = Some (Inr q, w1)" and rest: "for_particles F ps w1 = Some (Inr qs, w')"
      and ps': "ps' = q # qs"
      by (auto split: option.splits sum.splits prod.splits)
    from rest Cons.IH[of w1 qs] obtain ws1 where
      len: "length qs = length ps" and ws1: "length ws1 = Suc (length ps)" "ws1 ! 0 = w1"
        "ws1 ! length ps = w'"
      and steps: "\<forall>i < length ps. F (ps ! i) (ws1 ! i) = Some (Inr (qs ! i), ws1 ! Suc i)"
      by blast
    have "\<forall>i < length (p # ps).
            F ((p # ps) ! i) ((w # ws1) ! i) = Some (Inr (ps' ! i), (w # ws1) ! Suc i)"
    proof (intro allI impI)
      fix i assume "i < length (p # ps)"
      then show "F ((p # ps) ! i) ((w # ws1) ! i) = Some (Inr (ps' ! i), (w # ws1) ! Suc i)"
        using first steps ws1(2) ps' by (cases i) simp_all
    qed
    with len ws1 ps' show "?R (p # ps) w ps'"
      by (intro conjI exI[of _ "w # ws1"]) simp_all
  next
    assume R: "?R (p # ps) w ps'"
    then obtain ws where
      len: "length ps' = Suc (length ps)" and ws: "length ws = Suc (Suc (length ps))" "ws ! 0 = w"
        "ws ! Suc (length ps) = w'"
      and steps: "\<forall>i < Suc (length ps). F ((p # ps) ! i) (ws ! i) = Some (Inr (ps' ! i), ws ! Suc i)"
      by auto
    from len obtain q qs where ps': "ps' = q # qs" and lenq: "length qs = length ps"
      by (cases ps') auto
    from ws obtain ws1 where wsc: "ws = w # ws1" and len1: "length ws1 = Suc (length ps)"
      by (cases ws) auto
    from steps have first: "F p w = Some (Inr q, ws1 ! 0)"
      using ps' wsc by (auto dest: spec[of _ 0])
    have "\<forall>i < length ps. F (ps ! i) (ws1 ! i) = Some (Inr (qs ! i), ws1 ! Suc i)"
    proof (intro allI impI)
      fix i assume "i < length ps"
      with steps have "F ((p # ps) ! Suc i) (ws ! Suc i) = Some (Inr (ps' ! Suc i), ws ! Suc (Suc i))"
        by (auto dest: spec[of _ "Suc i"])
      then show "F (ps ! i) (ws1 ! i) = Some (Inr (qs ! i), ws1 ! Suc i)"
        using ps' wsc by simp
    qed
    moreover from ws(3) wsc have "ws1 ! length ps = w'" by simp
    ultimately have "?R ps (ws1 ! 0) qs"
      using lenq len1 by blast
    then have "for_particles F ps (ws1 ! 0) = Some (Inr qs, w')"
      by (simp only: Cons.IH[of "ws1 ! 0" qs])
    with first ps' show "?L (p # ps) w ps'" by simp
  qed
qed

lemma execute_python_Inr_iff:
  "execute_python self pset endtime dt_arg w = Some (Inr pset', w') \<longleftrightarrow>
     pset' = pset\<lparr>particles := particles pset'\<rparr> \<and>
     for_particles
       (\<lambda>p. time_loop (pyfunc self) (grid pset) endtime (sign_of dt_arg) p (dt_pos_of endtime p))
       (particles pset) w = Some (Inr (particles pset'), w')"
proof -
  let ?f = "\<lambda>p. time_loop (pyfunc self) (grid pset) endtime (sign_of dt_arg) p (dt_pos_of endtime p)"
  have upd: "pset' = pset\<lparr>particles := ps\<rparr> \<longleftrightarrow>
             pset' = pset\<lparr>particles := particles pset'\<rparr> \<and> ps = particles pset'" for ps
    by (cases pset, cases pset') auto
  show ?thesis
  proof (cases "for_particles ?f (particles pset) w")
    case None
    then show ?thesis by (simp add: execute_python_def)
  next
    case (Some r)
    obtain res w1 where r: "r = (res, w1)" by (cases r)
    show ?thesis
    proof (cases res)
      case (Inl e)
      with Some r show ?thesis by (simp add: execute_python_def)
    next
      case (Inr ps)
      with Some r upd[of ps] show ?thesis by (auto simp add: execute_python_def)
    qed
  qed
qed

lemma execute_python_Inr_nth:
  "execute_python self pset endtime dt_arg w = Some (Inr pset', w') \<longleftrightarrow>
     pset' = pset\<lparr>particles := particles pset'\<rparr> \<and>
     length (particles pset') = length (particles pset) \<and>
     (\<exists>ws. length ws = Suc (length (particles pset)) \<and> ws ! 0 = w \<and>
        ws ! length (particles pset) = w' \<and>
        (\<forall>i < length (particles pset).
           time_loop (pyfunc self) (grid pset) endtime (if 0 < dt_arg then 1 else - 1)
             (particles pset ! i)
             (min \<bar>dt (particles pset ! i)\<bar> \<bar>endtime - time (particles pset ! i)\<bar>) (ws ! i)
           = Some (Inr (particles pset' ! i), ws ! Suc i)))"
  unfolding execute_python_Inr_iff for_particles_Inr_iff sign_of_def dt_pos_of_def
  by (rule refl)

text \<open>
  Claim C1. In the interpreted execution path, for every particle \<open>p\<close> the executor runs an
  inner loop that starts with \<open>dt_remaining = min(|p.dt|, |endtime - p.time|)\<close>, where the
  sign is \<open>+1\<close> if \<open>dt > 0\<close> and \<open>-1\<close> otherwise (first conjunct: \<^verbatim>\<open>execute_python\<close> returns
  a set exactly when each particle of the result is what the loop of the particle at the
  same position returns; the loops run one after the other, each in the user context that
  the loop before it has left). The loop ends when \<open>dt_remaining > 0\<close> fails (second
  conjunct). While it holds, the kernel is called with \<open>(p, grid, p.time, sign * dt_remaining)\<close>;
  on the result \<open>Success\<close>, or without an explicit return, the time of the particle is
  advanced by \<open>sign * dt_remaining\<close> and \<open>dt_remaining\<close> is computed again (third and fourth
  conjunct); on \<open>Repeat\<close> \<open>dt_remaining\<close> is computed again and the time is not advanced
  (fifth conjunct); on any other result the loop is left (sixth conjunct).
\<close>

theorem execute_python_inner_loop:
  "(execute_python self pset endtime dt_arg w = Some (Inr pset', w') \<longleftrightarrow>
      pset' = pset\<lparr>particles := particles pset'\<rparr> \<and>
      length (particles pset') = length (particles pset) \<and>
      (\<exists>ws. length ws = Suc (length (particles pset)) \<and> ws ! 0 = w \<and>
         ws ! length (particles pset) = w' \<and>
         (\<forall>i < length (particles pset).
            time_loop (pyfunc self) (grid pset) endtime (if 0 < dt_arg then 1 else - 1)
              (particles pset ! i)
              (min \<bar>dt (particles pset ! i)\<bar> \<bar>endtime - time (particles pset ! i)\<bar>) (ws ! i)
            = Some (Inr (particles pset' ! i), ws ! Suc i))))
   \<and> (\<not> 0 < d \<longrightarrow> time_loop f g endtime s p d v = Some (Inr p, v))
   \<and> (0 < d \<and> f p g (time p) (s * d) v = ((Return (Some Success), p'), v') \<longrightarrow>
        time_loop f g endtime s p d v =
        time_loop f g endtime s (p'\<lparr>state := Success, time := time p' + s * d\<rparr>)
          (min \<bar>dt p'\<bar> \<bar>endtime - (time p' + s * d)\<bar>) v')
   \<and> (0 < d \<and> f p g (time p) (s * d) v = ((Return None, p'), v') \<longrightarrow>
        time_loop f g endtime s p d v =
        time_loop f g endtime s (p'\<lparr>time := time p' + s * d\<rparr>)
          (min \<bar>dt p'\<bar> \<bar>endtime - (time p' + s * d)\<bar>) v')
   \<and> (0 < d \<and> f p g (time p) (s * d) v = ((Return (Some Repeat), p'), v') \<longrightarrow>
        time_loop f g endtime s p d v =
        time_loop f g endtime s (p'\<lparr>state := Repeat\<rparr>) (min \<bar>dt p'\<bar> \<bar>endtime - time p'\<bar>) v')
   \<and> (0 < d \<and> try_pyfunc f g p (s * d) v = (Inr (Some r, p'), v') \<and> r \<noteq> Success \<and> r \<noteq> Repeat \<longrightarrow>
        time_loop f g endtime s p d v = Some (Inr (p'\<lparr>state := r\<rparr>), v'))"
  using execute_python_Inr_nth [of self pset endtime dt_arg w pset' w']
    time_loop_exit [of d f g endtime s p v]
    time_loop_Return_Success [of d f p g s v p' v' endtime]
    time_loop_Return_None [of d f p g s v p' v' endtime]
    time_loop_Return_Repeat [of d f p g s v p' v' endtime]
    time_loop_break [of d f g p s v r p' v' endtime]
  by blast

theorem execute_python_inner_loop_witness:
  "execute_python (scipy_kernel ''Staged'' Staged)
     (pset_of [particle_at 0 0 1 Success, particle_at 3 0 1 Success]) 1 1 []
     = Some (Inr (pset_of [particle_at (1/2) 1 1 Success, particle_at 3 0 1 Delete]), [])
   \<and> time_loop Staged () 1 1 (particle_at 0 1 1 Success) 0 []
       = Some (Inr (particle_at 0 1 1 Success), [])
   \<and> time_loop Staged () 1 1 (particle_at 1 0 1 Repeat) 1 []
       = time_loop Staged () 1 1 (particle_at 1 1 1 Success) 0 []
   \<and> time_loop Staged () 1 1 (particle_at 0 0 1 Repeat) 1 []
       = time_loop Staged () 1 1 (particle_at (1/2) 1 1 Repeat) 0 []
   \<and> time_loop Staged () 1 1 (particle_at 2 0 1 Success) 1 []
       = time_loop Staged () 1 1 (particle_at 1 0 1 Repeat) 1 []
   \<and> time_loop Staged () 1 1 (particle_at 3 0 1 Success) 1 []
       = Some (Inr (particle_at 3 0 1 Delete), [])"
proof -
  note inner = execute_python_inner_loop
  have a: "time_loop Staged () 1 1 (particle_at 0 0 1 Success) 1 []
             = Some (Inr (particle_at (1/2) 1 1 Success), [])"
    by (simp add: time_loop.simps loop_body_def try_pyfunc_def dt_pos_of_def Staged_def
        particle_at_def)
  have b: "time_loop Staged () 1 1 (particle_at 3 0 1 Success) 1 []
             = Some (Inr (particle_at 3 0 1 Delete), [])"
    by (simp add: time_loop.simps loop_body_def try_pyfunc_def dt_pos_of_def Staged_def
        particle_at_def)
  have chain: "\<exists>ws. length ws = Suc (Suc (Suc 0)) \<and> ws ! 0 = [] \<and> ws ! Suc (Suc 0) = [] \<and>
          (\<forall>i < Suc (Suc 0).
             time_loop Staged () 1 1
               ([particle_at 0 0 1 Success, particle_at 3 0 1 Success] ! i)
               (min \<bar>dt ([particle_at 0 0 1 Success, particle_at 3 0 1 Success] ! i)\<bar>
                    \<bar>1 - time ([particle_at 0 0 1 Success, particle_at 3 0 1 Success] ! i)\<bar>) (ws ! i)
             = Some (Inr ([particle_at (1/2) 1 1 Success, particle_at 3 0 1 Delete] ! i), ws ! Suc i))"
    using a b
    by (intro exI[of _ "[[], [], []]"]) (simp add: less_Suc_eq particle_at_def)
  have c1: "execute_python (scipy_kernel ''Staged'' Staged)
     (pset_of [particle_at 0 0 1 Success, particle_at 3 0 1 Success]) 1 1 []
     = Some (Inr (pset_of [particle_at (1/2) 1 1 Success, particle_at 3 0 1 Delete]), [])"
    using inner [THEN conjunct1, of "scipy_kernel ''Staged'' Staged"
                 "pset_of [particle_at 0 0 1 Success, particle_at 3 0 1 Success]" 1 1 "[]"
                 "pset_of [particle_at (1/2) 1 1 Success, particle_at 3 0 1 Delete]" "[]"] chain
    by (simp add: pset_of_def scipy_kernel_def)
  have c2: "time_loop Staged () 1 1 (particle_at 0 1 1 Success) 0 []
              = Some (Inr (particle_at 0 1 1 Success), [])"
    using inner [THEN conjunct2, THEN conjunct1, of 0 Staged "()" 1 1 "particle_at 0 1 1 Success" "[]"]
    by simp
  have c3: "time_loop Staged () 1 1 (particle_at 1 0 1 Repeat) 1 []
       = time_loop Staged () 1 1 (particle_at 1 1 1 Success) 0 []"
    using inner [THEN conjunct2, THEN conjunct2, THEN conjunct1,
                 of 1 Staged "particle_at 1 0 1 Repeat" "()" 1 "[]" "particle_at 1 0 1 Repeat" "[]" 1]
    by (simp add: Staged_def particle_at_def)
  have c4: "time_loop Staged () 1 1 (particle_at 0 0 1 Repeat) 1 []
       = time_loop Staged () 1 1 (particle_at (1/2) 1 1 Repeat) 0 []"
    using inner [THEN conjunct2, THEN conjunct2, THEN conjunct2, THEN conjunct1,
                 of 1 Staged "particle_at 0 0 1 Repeat" "()" 1 "[]" "particle_at (1/2) 0 1 Repeat" "[]" 1]
    by (simp add: Staged_def particle_at_def)
  have c5: "time_loop Staged () 1 1 (particle_at 2 0 1 Success) 1 []
       = time_loop Staged () 1 1 (particle_at 1 0 1 Repeat) 1 []"
    using inner [THEN conjunct2, THEN conjunct2, THEN conjunct2, THEN conjunct2, THEN conjunct1,
                 of 1 Staged "particle_at 2 0 1 Success" "()" 1 "[]" "particle_at 1 0 1 Success" "[]" 1]
    by (simp add: Staged_def particle_at_def)
  have c6: "time_loop Staged () 1 1 (particle_at 3 0 1 Success) 1 []
       = Some (Inr (particle_at 3 0 1 Delete), [])"
    using inner [THEN conjunct2, THEN conjunct2, THEN conjunct2, THEN conjunct2, THEN conjunct2,
                 of 1 Staged "()" "particle_at 3 0 1 Success" 1 "[]" Delete "particle_at 3 0 1 Success" "[]" 1]
    by (simp add: Staged_def particle_at_def try_pyfunc_def)
  from c1 c2 c3 c4 c5 c6 show ?thesis by blast
qed

section \<open>Exceptions of a kernel\<close>

lemma time_loop_FieldSamplingError:
  assumes "0 < d" and "f p g (time p) (s * d) w = ((Raise (FieldSamplingError m), p'), w')"
  shows "time_loop f g endtime s p d w =
         Some (Inr (p'\<lparr>exception := Some (FieldSamplingError m), state := ErrorOutOfBounds\<rparr>), w')"
  using assms
  by (simp add: time_loop_step loop_body_def try_pyfunc_Raise)

lemma time_loop_Exception:
  assumes "0 < d" and "f p g (time p) (s * d) w = ((Raise e, p'), w')"
    and "isinstance_Exception e" and "\<not> isinstance_FieldSamplingError e"
  shows "time_loop f g endtime s p d w = Some (Inr (p'\<lparr>exception := Some e, state := Error\<rparr>), w')"
  using assms
  by (simp add: time_loop_step loop_body_def try_pyfunc_Raise)

lemma try_pyfunc_Inl:
  assumes "try_pyfunc f g p d w = (Inl e, w')"
  shows "\<exists>p'. f p g (time p) d w = ((Raise e, p'), w') \<and> \<not> isinstance_Exception e"
proof (cases "f p g (time p) d w")
  case (Pair op w1)
  obtain out p' where op: "op = (out, p')" by (cases op)
  with Pair assms show ?thesis
    by (cases out) (auto simp: try_pyfunc_def split: if_splits)
qed

lemma loop_body_Propagate:
  assumes "loop_body f g endtime s p d w = (Propagate e, w')"
  shows "try_pyfunc f g p (s * d) w = (Inl e, w')"
  using assms
  by (auto simp: loop_body_def Let_def split: sum.splits prod.splits if_splits)

lemma time_loop_caught_aux:
  assumes "time_loop f g endtime s p d w = Some r"
  shows "(\<forall>p g t d e p' v v'. f p g t d v = ((Raise e, p'), v') \<longrightarrow> isinstance_Exception e)
           \<longrightarrow> (\<forall>e w'. r \<noteq> (Inl e, w'))"
proof (rule time_loop.raw_induct
         [where P = "\<lambda>f g endtime s p d w r.
            (\<forall>p g t d e p' v v'. f p g t d v = ((Raise e, p'), v') \<longrightarrow> isinstance_Exception e)
              \<longrightarrow> (\<forall>e w'. r \<noteq> (Inl e, w'))",
          OF _ assms], goal_cases)
  case (1 loop f g endtime s p d w r)
  note step = 1(1) and body = 1(2)
  show ?case
  proof (intro impI)
    assume caught: "\<forall>p g t d e p' v v'. f p g t d v = ((Raise e, p'), v') \<longrightarrow> isinstance_Exception e"
    show "\<forall>e w'. r \<noteq> (Inl e, w')"
    proof (cases "0 < d")
      case False
      with body show ?thesis by auto
    next
      case True
      obtain ctl w1 where lb: "loop_body f g endtime s p d w = (ctl, w1)"
        by (cases "loop_body f g endtime s p d w")
      show ?thesis
      proof (cases ctl)
        case (Continue p' d')
        with True body lb have "loop f g endtime s p' d' w1 = Some r" by simp
        from step[OF this] caught show ?thesis by blast
      next
        case (Break p')
        with True body lb show ?thesis by auto
      next
        case (Propagate e)
        with lb have "loop_body f g endtime s p d w = (Propagate e, w1)" by simp
        from try_pyfunc_Inl[OF loop_body_Propagate[OF this]] caught
        show ?thesis by blast
      qed
    qed
  qed
qed

lemma for_particles_no_Inl:
  assumes "\<forall>p \<in> set ps. \<forall>e v v'. F p v \<noteq> Some (Inl e, v')"
  shows "for_particles F ps w \<noteq> Some (Inl e, w')"
  using assms
proof (induction ps arbitrary: w)
  case Nil
  show ?case by simp
next
  case (Cons p ps)
  from Cons.prems have first: "\<forall>e v'. F p w \<noteq> Some (Inl e, v')" by simp
  from Cons.prems have rest: "\<And>v. for_particles F ps v \<noteq> Some (Inl e, w')"
    by (intro Cons.IH) simp
  show ?case
  proof (cases "F p w")
    case None
    then show ?thesis by simp
  next
    case (Some r)
    obtain res w1 where r: "r = (res, w1)" by (cases r)
    show ?thesis
    proof (cases res)
      case (Inl e')
      with Some r first show ?thesis by simp
    next
      case (Inr p')
      with Some r rest[of w1] show ?thesis
        by (auto split: option.splits sum.splits prod.splits)
    qed
  qed
qed

lemma execute_python_caught:
  assumes "\<forall>p g t d e p' v v'. pyfunc self p g t d v = ((Raise e, p'), v') \<longrightarrow> isinstance_Exception e"
  shows "execute_python self pset endtime dt_arg w \<noteq> Some (Inl e, w')"
proof -
  let ?f = "\<lambda>p. time_loop (pyfunc self) (grid pset) endtime (sign_of dt_arg) p (dt_pos_of endtime p)"
  have "\<forall>p \<in> set (particles pset). \<forall>e v v'. ?f p v \<noteq> Some (Inl e, v')"
    using time_loop_caught_aux[of "pyfunc self"] assms by blast
  then have "for_particles ?f (particles pset) w \<noteq> Some (Inl e, w')"
    by (rule for_particles_no_Inl)
  then show ?thesis
    by (auto simp: execute_python_def Let_def split: option.splits sum.splits prod.splits)
qed

text \<open>
  Claim C4. When a call of the kernel on a particle raises an out-of-bounds sampling error
  (\<^verbatim>\<open>FieldSamplingError\<close>), the executor sets the state of the particle to
  \<open>ErrorOutOfBounds\<close> and stores the exception on the particle (first conjunct); when the
  call raises any other exception (an instance of \<^verbatim>\<open>Exception\<close>, as the handler names it),
  the executor sets the state to \<open>Error\<close> and stores the exception (second conjunct). In
  both cases the loop of the particle ends normally, and the core loop raises nothing
  when every object a kernel raises is an exception (third conjunct).
\<close>

theorem kernel_exceptions_caught:
  "(0 < d \<and> f p g (time p) (s * d) v = ((Raise (FieldSamplingError m), p'), v') \<longrightarrow>
      time_loop f g endtime s p d v =
      Some (Inr (p'\<lparr>exception := Some (FieldSamplingError m), state := ErrorOutOfBounds\<rparr>), v'))
   \<and> (0 < d \<and> f p g (time p) (s * d) v = ((Raise e, p'), v') \<and>
        isinstance_Exception e \<and> \<not> isinstance_FieldSamplingError e \<longrightarrow>
      time_loop f g endtime s p d v = Some (Inr (p'\<lparr>exception := Some e, state := Error\<rparr>), v'))
   \<and> ((\<forall>p g t d e p' v v'. pyfunc self p g t d v = ((Raise e, p'), v') \<longrightarrow> isinstance_Exception e) \<longrightarrow>
        (\<forall>e w'. execute_python self pset endtime dt_arg w \<noteq> Some (Inl e, w')))"
  using time_loop_FieldSamplingError [of d f p g s v m p' v' endtime]
    time_loop_Exception [of d f p g s v e p' v' endtime]
    execute_python_caught [of self pset endtime dt_arg w]
  by blast

theorem kernel_exceptions_caught_witness:
  "time_loop AdvectEast () 2 1 (particle_at 2 1 1 Success) 1 []
     = Some (Inr ((particle_at 2 1 1 ErrorOutOfBounds)\<lparr>exception := Some (FieldSamplingError ''U'')\<rparr>), [])
   \<and> time_loop Fails () 2 1 (particle_at 2 1 1 Success) 1 []
     = Some (Inr ((particle_at 2 1 1 Error)\<lparr>exception := Some (OtherException ''ZeroDivisionError'')\<rparr>), [])
   \<and> (\<forall>e w'. execute_python (scipy_kernel ''AdvectEast'' AdvectEast)
              (pset_of [particle_at (99/100) 0 1 Success]) 2 1 [] \<noteq> Some (Inl e, w'))"
proof -
  note caught = kernel_exceptions_caught
  have c1: "time_loop AdvectEast () 2 1 (particle_at 2 1 1 Success) 1 []
     = Some (Inr ((particle_at 2 1 1 ErrorOutOfBounds)\<lparr>exception := Some (FieldSamplingError ''U'')\<rparr>), [])"
    using caught [THEN conjunct1, of 1 AdvectEast "particle_at 2 1 1 Success" "()" 1 "[]" "''U''"
                    "particle_at 2 1 1 Success" "[]" 2]
    by (simp add: AdvectEast_def particle_at_def)
  have c2: "time_loop Fails () 2 1 (particle_at 2 1 1 Success) 1 []
     = Some (Inr ((particle_at 2 1 1 Error)\<lparr>exception := Some (OtherException ''ZeroDivisionError'')\<rparr>), [])"
    using caught [THEN conjunct2, THEN conjunct1, of 1 Fails "particle_at 2 1 1 Success" "()" 1 "[]"
                    "OtherException ''ZeroDivisionError''" "particle_at 2 1 1 Success" "[]" 2]
    by (simp add: Fails_def particle_at_def)
  have "\<forall>p g t d e p' v v'. pyfunc (scipy_kernel ''AdvectEast'' AdvectEast) p g t d v = ((Raise e, p'), v')
          \<longrightarrow> isinstance_Exception e"
    by (auto simp: scipy_kernel_def AdvectEast_def split: if_splits)
  with caught [THEN conjunct2, THEN conjunct2, of "scipy_kernel ''AdvectEast'' AdvectEast"
                 "pset_of [particle_at (99/100) 0 1 Success]" 2 1 "[]"]
  have c3: "\<forall>e w'. execute_python (scipy_kernel ''AdvectEast'' AdvectEast)
              (pset_of [particle_at (99/100) 0 1 Success]) 2 1 [] \<noteq> Some (Inl e, w')"
    by blast
  from c1 c2 c3 show ?thesis by blast
qed

section \<open>The state after an advance\<close>

lemma loop_body_advance:
  assumes "f p g (time p) (s * d) w = ((Return res, p'), w')" and "res = None \<or> res = Some Success"
  shows "loop_body f g endtime s p d w =
           (Continue (p'\<lparr>state := (case res of None \<Rightarrow> state p' | Some r \<Rightarrow> r),
                       time := time p' + s * d\<rparr>)
                    (min \<bar>dt p'\<bar> \<bar>endtime - (time p' + s * d)\<bar>), w')"
  using assms try_pyfunc_Return[of f p g "s * d" w res p' w']
  by (auto simp: loop_body_def dt_pos_of_def)

text \<open>
  Claim C8, as amended. Immediately after a successful advance of a particle (the call of
  the kernel did not raise and returned \<open>Success\<close> or nothing, and the time of the
  particle was advanced), the state of the particle is \<open>Success\<close> if the kernel returned
  \<open>Success\<close> explicitly; if the kernel returned nothing, the state is the one the particle
  had when the kernel returned, whatever it is.
\<close>

theorem state_after_advance:
  "f p g (time p) (s * d) w = ((Return res, p'), w') \<and> (res = None \<or> res = Some Success) \<longrightarrow>
     (\<exists>q. loop_body f g endtime s p d w = (Continue q (min \<bar>dt q\<bar> \<bar>endtime - time q\<bar>), w')
          \<and> time q = time p' + s * d
          \<and> state q = (case res of None \<Rightarrow> state p' | Some r \<Rightarrow> Success))"
proof (intro impI, elim conjE)
  assume call: "f p g (time p) (s * d) w = ((Return res, p'), w')"
    and res: "res = None \<or> res = Some Success"
  let ?q = "p'\<lparr>state := (case res of None \<Rightarrow> state p' | Some r \<Rightarrow> r), time := time p' + s * d\<rparr>"
  from loop_body_advance[of f p g s d w res p' w' endtime] call res
  have "loop_body f g endtime s p d w = (Continue ?q (min \<bar>dt ?q\<bar> \<bar>endtime - time ?q\<bar>), w')"
    by simp
  moreover have "time ?q = time p' + s * d" by simp
  moreover from res have "state ?q = (case res of None \<Rightarrow> state p' | Some r \<Rightarrow> Success)"
    by auto
  ultimately show "\<exists>q. loop_body f g endtime s p d w = (Continue q (min \<bar>dt q\<bar> \<bar>endtime - time q\<bar>), w')
          \<and> time q = time p' + s * d
          \<and> state q = (case res of None \<Rightarrow> state p' | Some r \<Rightarrow> Success)"
    by blast
qed

text \<open>
  The claim as stated fails: with a prior state \<open>Repeat\<close> and a kernel without an explicit
  return the state is \<open>Repeat\<close> after the advance; and the kernel of
  \<^verbatim>\<open>test_pset_remove_kernel\<close> leaves the state \<open>Delete\<close> on a particle that is advanced.
\<close>

theorem state_after_advance_counterexample:
  "loop_body Idle () 1 1 (particle_at 0 0 1 Repeat) 1 [] = (Continue (particle_at 0 1 1 Repeat) 0, [])
   \<and> state (particle_at 0 1 1 Repeat) \<noteq> Success
   \<and> execute_python (scipy_kernel ''DeleteKernel'' DeleteKernel)
        (pset_of [particle_at (1/2) 0 1 Success]) 1 1 []
      = Some (Inr (pset_of [particle_at (1/2) 1 1 Delete]), [])"
  by (simp add: loop_body_def try_pyfunc_def dt_pos_of_def Idle_def DeleteKernel_def
      particle_at_def execute_python_def time_loop.simps sign_of_def scipy_kernel_def pset_of_def)

theorem state_after_advance_witness:
  "(\<exists>q. loop_body Idle () 1 1 (particle_at 0 0 1 Repeat) 1 [] = (Continue q (min \<bar>dt q\<bar> \<bar>1 - time q\<bar>), [])
          \<and> time q = 1 \<and> state q = Repeat)
   \<and> (\<exists>q. loop_body Staged () 1 1 (particle_at 1 0 1 Repeat) 1 [] = (Continue q (min \<bar>dt q\<bar> \<bar>1 - time q\<bar>), [])
          \<and> time q = 1 \<and> state q = Success)"
  using state_after_advance [of Idle "particle_at 0 0 1 Repeat" "()" 1 1 "[]" None "particle_at 0 0 1 Repeat" "[]" 1]
    state_after_advance [of Staged "particle_at 1 0 1 Repeat" "()" 1 1 "[]" "Some Success" "particle_at 1 0 1 Repeat" "[]" 1]
  by (simp add: Idle_def Staged_def particle_at_def)

section \<open>A particle on which the kernel returns \<open>Repeat\<close> on every call\<close>

lemma time_loop_Repeat_aux:
  assumes "time_loop f g endtime s p d w = Some r"
  shows "(\<forall>q v. I q v \<and> 0 < dt_pos_of endtime q \<longrightarrow>
            (\<exists>q' v'. f q g (time q) (s * dt_pos_of endtime q) v = ((Return (Some Repeat), q'), v')
               \<and> time q' = time q \<and> I (q'\<lparr>state := Repeat\<rparr>) v'))
         \<longrightarrow> I p w \<longrightarrow> d = dt_pos_of endtime p
         \<longrightarrow> (\<exists>q v. r = (Inr q, v) \<and> time q = time p \<and> \<not> 0 < dt_pos_of endtime q \<and> I q v)"
proof (rule time_loop.raw_induct
         [where P = "\<lambda>f g endtime s p d w r.
            (\<forall>q v. I q v \<and> 0 < dt_pos_of endtime q \<longrightarrow>
              (\<exists>q' v'. f q g (time q) (s * dt_pos_of endtime q) v = ((Return (Some Repeat), q'), v')
                 \<and> time q' = time q \<and> I (q'\<lparr>state := Repeat\<rparr>) v'))
            \<longrightarrow> I p w \<longrightarrow> d = dt_pos_of endtime p
            \<longrightarrow> (\<exists>q v. r = (Inr q, v) \<and> time q = time p \<and> \<not> 0 < dt_pos_of endtime q \<and> I q v)",
          OF _ assms], goal_cases)
  case (1 loop f g endtime s p d w r)
  note step = 1(1) and body = 1(2)
  show ?case
  proof (intro impI)
    assume closed: "\<forall>q v. I q v \<and> 0 < dt_pos_of endtime q \<longrightarrow>
              (\<exists>q' v'. f q g (time q) (s * dt_pos_of endtime q) v = ((Return (Some Repeat), q'), v')
                 \<and> time q' = time q \<and> I (q'\<lparr>state := Repeat\<rparr>) v')"
      and inv: "I p w" and d: "d = dt_pos_of endtime p"
    show "\<exists>q v. r = (Inr q, v) \<and> time q = time p \<and> \<not> 0 < dt_pos_of endtime q \<and> I q v"
    proof (cases "0 < d")
      case False
      with body have "r = (Inr p, w)" by simp
      with False inv d show ?thesis by simp
    next
      case True
      with closed inv d obtain q' v' where
        call: "f p g (time p) (s * d) w = ((Return (Some Repeat), q'), v')"
        and same: "time q' = time p" and inv': "I (q'\<lparr>state := Repeat\<rparr>) v'"
        by blast
      from call have "loop_body f g endtime s p d w =
                 (Continue (q'\<lparr>state := Repeat\<rparr>) (dt_pos_of endtime (q'\<lparr>state := Repeat\<rparr>)), v')"
        by (simp add: loop_body_def try_pyfunc_def Let_def)
      with body True
      have "loop f g endtime s (q'\<lparr>state := Repeat\<rparr>) (dt_pos_of endtime (q'\<lparr>state := Repeat\<rparr>)) v'
              = Some r"
        by simp
      from step[OF this] closed inv' same show ?thesis by simp
    qed
  qed
qed

lemma time_loop_Repeat_time:
  assumes "\<forall>q v. I q v \<and> 0 < min \<bar>dt q\<bar> \<bar>endtime - time q\<bar> \<longrightarrow>
            (\<exists>q' v'. f q g (time q) (s * min \<bar>dt q\<bar> \<bar>endtime - time q\<bar>) v
                        = ((Return (Some Repeat), q'), v')
               \<and> time q' = time q \<and> I (q'\<lparr>state := Repeat\<rparr>) v')"
    and "I p w"
    and "time_loop f g endtime s p (min \<bar>dt p\<bar> \<bar>endtime - time p\<bar>) w = Some r"
  shows "\<exists>q v. r = (Inr q, v) \<and> time q = time p \<and> \<not> 0 < min \<bar>dt q\<bar> \<bar>endtime - time q\<bar> \<and> I q v"
  using time_loop_Repeat_aux[OF assms(3), of I] assms(1,2)
  unfolding dt_pos_of_def by blast

lemma time_loop_Repeat_diverges:
  assumes "\<forall>q v. I q v \<and> 0 < min \<bar>dt q\<bar> \<bar>endtime - time q\<bar> \<longrightarrow>
            (\<exists>q' v'. f q g (time q) (s * min \<bar>dt q\<bar> \<bar>endtime - time q\<bar>) v
                        = ((Return (Some Repeat), q'), v')
               \<and> time q' = time q \<and> I (q'\<lparr>state := Repeat\<rparr>) v')"
    and "I p w"
    and "\<forall>q v. I q v \<longrightarrow> 0 < min \<bar>dt q\<bar> \<bar>endtime - time q\<bar>"
  shows "time_loop f g endtime s p (min \<bar>dt p\<bar> \<bar>endtime - time p\<bar>) w = None"
proof (cases "time_loop f g endtime s p (min \<bar>dt p\<bar> \<bar>endtime - time p\<bar>) w")
  case (Some r)
  from time_loop_Repeat_time[of I endtime f g s p w r] assms Some show ?thesis by blast
qed simp

lemma for_particles_diverges:
  assumes "for_particles F xs w = Some (Inr pre, w1)" and "F y w1 = None"
  shows "for_particles F (xs @ y # ys) w = None"
  using assms
proof (induction xs arbitrary: w pre)
  case Nil
  then show ?case by simp
next
  case (Cons x xs)
  from Cons.prems(1) obtain x' v qs where
    first: "F x w = Some (Inr x', v)" and rest: "for_particles F xs v = Some (Inr qs, w1)"
    by (auto split: option.splits sum.splits prod.splits)
  from Cons.IH[OF rest Cons.prems(2)] first show ?case by simp
qed

lemma execute_python_prefix:
  assumes "execute_python self (pset\<lparr>particles := take i (particles pset)\<rparr>) endtime dt_arg w
             = Some (Inr pre, w1)"
  shows "for_particles
           (\<lambda>p. time_loop (pyfunc self) (grid pset) endtime (sign_of dt_arg) p (dt_pos_of endtime p))
           (take i (particles pset)) w = Some (Inr (particles pre), w1)"
  using assms
  by (auto simp: execute_python_def Let_def split: option.splits sum.splits prod.splits)

lemma execute_python_diverges:
  assumes i: "i < length (particles pset)"
    and pre: "execute_python self (pset\<lparr>particles := take i (particles pset)\<rparr>) endtime dt_arg w
                = Some (Inr pre, w1)"
    and stuck: "time_loop (pyfunc self) (grid pset) endtime (sign_of dt_arg) (particles pset ! i)
                  (dt_pos_of endtime (particles pset ! i)) w1 = None"
  shows "execute_python self pset endtime dt_arg w = None"
proof -
  let ?F = "\<lambda>p. time_loop (pyfunc self) (grid pset) endtime (sign_of dt_arg) p (dt_pos_of endtime p)"
  from i have split: "particles pset =
      take i (particles pset) @ particles pset ! i # drop (Suc i) (particles pset)"
    by (simp add: id_take_nth_drop)
  have "for_particles ?F
          (take i (particles pset) @ particles pset ! i # drop (Suc i) (particles pset)) w = None"
    by (rule for_particles_diverges[OF execute_python_prefix[OF pre] stuck])
  with split have "for_particles ?F (particles pset) w = None" by simp
  then show ?thesis by (simp add: execute_python_def)
qed

lemma execute_core_diverges:
  "core_loop self pset endtime dt_arg w = None \<Longrightarrow>
   execute base self pset endtime dt_arg recovery w = None"
  by (simp add: execute_def)

lemma execute_Repeat_diverges:
  assumes closed: "\<forall>q v. I q v \<and> 0 < min \<bar>dt q\<bar> \<bar>endtime - time q\<bar> \<longrightarrow>
            (\<exists>q' v'. pyfunc self q (grid pset) (time q)
                        ((if 0 < dt_arg then 1 else - 1) * min \<bar>dt q\<bar> \<bar>endtime - time q\<bar>) v
                        = ((Return (Some Repeat), q'), v')
               \<and> time q' = time q \<and> I (q'\<lparr>state := Repeat\<rparr>) v')"
    and remaining: "\<forall>q v. I q v \<longrightarrow> 0 < min \<bar>dt q\<bar> \<bar>endtime - time q\<bar>"
    and interp: "\<not> uses_jit (ptype self)"
    and i: "i < length (particles pset)"
    and pre: "execute_python self (pset\<lparr>particles := take i (particles pset)\<rparr>) endtime dt_arg w
                = Some (Inr pre, w1)"
    and inv: "I (particles pset ! i) w1"
  shows "execute base self pset endtime dt_arg recovery w = None"
proof -
  have "time_loop (pyfunc self) (grid pset) endtime (if 0 < dt_arg then 1 else - 1)
          (particles pset ! i)
          (min \<bar>dt (particles pset ! i)\<bar> \<bar>endtime - time (particles pset ! i)\<bar>) w1 = None"
    using time_loop_Repeat_diverges[of I endtime "pyfunc self" "grid pset"
            "if 0 < dt_arg then 1 else - 1" "particles pset ! i" w1] closed inv remaining
    by blast
  then have "execute_python self pset endtime dt_arg w = None"
    using execute_python_diverges[OF i pre] by (simp add: sign_of_def dt_pos_of_def)
  with interp have "core_loop self pset endtime dt_arg w = None"
    by (simp add: core_loop_def)
  then show ?thesis by (rule execute_core_diverges)
qed

text \<open>
  Claim C2, as amended. Take a particle on which the kernel returns \<open>Repeat\<close> on every call
  of its loop without writing to the time of the particle: the particle and the user
  context are in a set \<open>I\<close> of states that every such call leaves in \<open>I\<close>. Whenever the loop
  of the particle ends, the time of the particle is what it was at entry, and no time
  remains (\<open>min(|p.dt|, |endtime - p.time|)\<close> is not positive); the loop ends at once when
  no time remains at entry; and it never ends when time remains in every state of \<open>I\<close>,
  as it does when the kernel leaves the time step alone: the time is never advanced, so
  the end time is never reached (first conjunct). Then \<^verbatim>\<open>Kernel.execute\<close> does not
  terminate either: on the interpreted path, once the core loop has finished the
  particles before such a particle, \<^verbatim>\<open>execute\<close> runs forever, whatever the kernel does on
  the other particles (second conjunct).
\<close>

theorem Repeat_particle_execute:
  "((\<forall>q v. I q v \<and> 0 < min \<bar>dt q\<bar> \<bar>endtime - time q\<bar> \<longrightarrow>
        (\<exists>q' v'. f q g (time q) (s * min \<bar>dt q\<bar> \<bar>endtime - time q\<bar>) v
                    = ((Return (Some Repeat), q'), v')
           \<and> time q' = time q \<and> I (q'\<lparr>state := Repeat\<rparr>) v'))
     \<and> I p w \<longrightarrow>
       (\<forall>r. time_loop f g endtime s p (min \<bar>dt p\<bar> \<bar>endtime - time p\<bar>) w = Some r \<longrightarrow>
          (\<exists>q v. r = (Inr q, v) \<and> time q = time p \<and> \<not> 0 < min \<bar>dt q\<bar> \<bar>endtime - time q\<bar>))
       \<and> (\<not> 0 < min \<bar>dt p\<bar> \<bar>endtime - time p\<bar> \<longrightarrow>
            time_loop f g endtime s p (min \<bar>dt p\<bar> \<bar>endtime - time p\<bar>) w = Some (Inr p, w))
       \<and> ((\<forall>q v. I q v \<longrightarrow> 0 < min \<bar>dt q\<bar> \<bar>endtime - time q\<bar>) \<longrightarrow>
            time_loop f g endtime s p (min \<bar>dt p\<bar> \<bar>endtime - time p\<bar>) w = None))
   \<and> ((\<forall>q v. I q v \<and> 0 < min \<bar>dt q\<bar> \<bar>endtime - time q\<bar> \<longrightarrow>
        (\<exists>q' v'. pyfunc self q (grid pset) (time q)
                    ((if 0 < dt_arg then 1 else - 1) * min \<bar>dt q\<bar> \<bar>endtime - time q\<bar>) v
                    = ((Return (Some Repeat), q'), v')
           \<and> time q' = time q \<and> I (q'\<lparr>state := Repeat\<rparr>) v'))
       \<and> (\<forall>q v. I q v \<longrightarrow> 0 < min \<bar>dt q\<bar> \<bar>endtime - time q\<bar>)
       \<and> \<not> uses_jit (ptype self) \<and> i < length (particles pset)
       \<and> execute_python self (pset\<lparr>particles := take i (particles pset)\<rparr>) endtime dt_arg w
           = Some (Inr pre, w1)
       \<and> I (particles pset ! i) w1 \<longrightarrow>
         execute base self pset endtime dt_arg recovery w = None)"
proof (intro conjI impI allI; (elim conjE)?)
  fix r
  assume "\<forall>q v. I q v \<and> 0 < min \<bar>dt q\<bar> \<bar>endtime - time q\<bar> \<longrightarrow>
        (\<exists>q' v'. f q g (time q) (s * min \<bar>dt q\<bar> \<bar>endtime - time q\<bar>) v
                    = ((Return (Some Repeat), q'), v')
           \<and> time q' = time q \<and> I (q'\<lparr>state := Repeat\<rparr>) v')"
    and "I p w"
    and "time_loop f g endtime s p (min \<bar>dt p\<bar> \<bar>endtime - time p\<bar>) w = Some r"
  with time_loop_Repeat_time[of I endtime f g s p w r]
  show "\<exists>q v. r = (Inr q, v) \<and> time q = time p \<and> \<not> 0 < min \<bar>dt q\<bar> \<bar>endtime - time q\<bar>"
    by blast
next
  assume "\<not> 0 < min \<bar>dt p\<bar> \<bar>endtime - time p\<bar>"
  then show "time_loop f g endtime s p (min \<bar>dt p\<bar> \<bar>endtime - time p\<bar>) w = Some (Inr p, w)"
    by (rule time_loop_exit)
next
  assume "\<forall>q v. I q v \<and> 0 < min \<bar>dt q\<bar> \<bar>endtime - time q\<bar> \<longrightarrow>
        (\<exists>q' v'. f q g (time q) (s * min \<bar>dt q\<bar> \<bar>endtime - time q\<bar>) v
                    = ((Return (Some Repeat), q'), v')
           \<and> time q' = time q \<and> I (q'\<lparr>state := Repeat\<rparr>) v')"
    and "I p w"
    and "\<forall>q v. I q v \<longrightarrow> 0 < min \<bar>dt q\<bar> \<bar>endtime - time q\<bar>"
  with time_loop_Repeat_diverges[of I endtime f g s p w]
  show "time_loop f g endtime s p (min \<bar>dt p\<bar> \<bar>endtime - time p\<bar>) w = None"
    by blast
next
  assume "\<forall>q v. I q v \<and> 0 < min \<bar>dt q\<bar> \<bar>endtime - time q\<bar> \<longrightarrow>
        (\<exists>q' v'. pyfunc self q (grid pset) (time q)
                    ((if 0 < dt_arg then 1 else - 1) * min \<bar>dt q\<bar> \<bar>endtime - time q\<bar>) v
                    = ((Return (Some Repeat), q'), v')
           \<and> time q' = time q \<and> I (q'\<lparr>state := Repeat\<rparr>) v')"
    and "\<forall>q v. I q v \<longrightarrow> 0 < min \<bar>dt q\<bar> \<bar>endtime - time q\<bar>"
    and "\<not> uses_jit (ptype self)" and "i < length (particles pset)"
    and "execute_python self (pset\<lparr>particles := take i (particles pset)\<rparr>) endtime dt_arg w
           = Some (Inr pre, w1)"
    and "I (particles pset ! i) w1"
  with execute_Repeat_diverges[of I endtime self pset dt_arg i w pre w1 base recovery]
  show "execute base self pset endtime dt_arg recovery w = None"
    by blast
qed

lemma RepeatEast_closed:
  "\<forall>q v. (1 / 2 < lon q \<and> dt q = 1 \<and> time q = 0) \<and> 0 < min \<bar>dt q\<bar> \<bar>1 - time q\<bar> \<longrightarrow>
        (\<exists>q' v'. RepeatEast q () (time q) (1 * min \<bar>dt q\<bar> \<bar>1 - time q\<bar>) v
                    = ((Return (Some Repeat), q'), v')
           \<and> time q' = time q
           \<and> (1 / 2 < lon (q'\<lparr>state := Repeat\<rparr>) \<and> dt (q'\<lparr>state := Repeat\<rparr>) = 1
                \<and> time (q'\<lparr>state := Repeat\<rparr>) = 0))"
  by (simp add: RepeatEast_def)

lemma RepeatEast_west:
  "execute_python (scipy_kernel ''RepeatEast'' RepeatEast) (pset_of [particle_at 0 0 1 Success]) 1 1 []
     = Some (Inr (pset_of [particle_at 0 1 1 Success]), [])"
  by (simp add: execute_python_def time_loop.simps loop_body_def try_pyfunc_def dt_pos_of_def
      sign_of_def RepeatEast_def scipy_kernel_def pset_of_def particle_at_def)

text \<open>
  The claim as stated fails: the kernel \<open>RepeatEast\<close> returns \<open>Repeat\<close> on every call for
  the particle at longitude \<open>1\<close> and nothing for the particle at longitude \<open>0\<close>. With both
  particles at time \<open>0\<close> with time step \<open>1\<close> and end time \<open>1\<close>, the first particle is
  advanced to the end time, and \<^verbatim>\<open>execute\<close> does not terminate.
\<close>

theorem Repeat_particle_execute_counterexample:
  "execute Map.empty (scipy_kernel ''RepeatEast'' RepeatEast)
     (pset_of [particle_at 0 0 1 Success, particle_at 1 0 1 Success]) 1 1 None [] = None"
proof -
  let ?I = "\<lambda>q (v::user_ctx). 1 / 2 < lon q \<and> dt q = 1 \<and> time q = 0"
  let ?pset = "pset_of [particle_at 0 0 1 Success, particle_at 1 0 1 Success]"
  have closed: "\<forall>q v. ?I q v \<and> 0 < min \<bar>dt q\<bar> \<bar>1 - time q\<bar> \<longrightarrow>
        (\<exists>q' v'. pyfunc (scipy_kernel ''RepeatEast'' RepeatEast) q (grid ?pset) (time q)
                    ((if 0 < (1::real) then 1 else - 1) * min \<bar>dt q\<bar> \<bar>1 - time q\<bar>) v
                    = ((Return (Some Repeat), q'), v')
           \<and> time q' = time q \<and> ?I (q'\<lparr>state := Repeat\<rparr>) v')"
    using RepeatEast_closed by (simp add: scipy_kernel_def)
  have remaining: "\<forall>q v. ?I q v \<longrightarrow> 0 < min \<bar>dt q\<bar> \<bar>1 - time q\<bar>" by simp
  have interp: "\<not> uses_jit (ptype (scipy_kernel ''RepeatEast'' RepeatEast))"
    by (simp add: scipy_kernel_def scipy_ptype_def)
  have i: "1 < length (particles ?pset)" by (simp add: pset_of_def)
  have pre: "execute_python (scipy_kernel ''RepeatEast'' RepeatEast)
               (?pset\<lparr>particles := take 1 (particles ?pset)\<rparr>) 1 1 []
             = Some (Inr (pset_of [particle_at 0 1 1 Success]), [])"
    using RepeatEast_west by (simp add: pset_of_def)
  have inv: "?I (particles ?pset ! 1) []" by (simp add: pset_of_def particle_at_def)
  show ?thesis
    using execute_Repeat_diverges[of ?I 1 "scipy_kernel ''RepeatEast'' RepeatEast" ?pset 1 1 "[]"
            "pset_of [particle_at 0 1 1 Success]" "[]" Map.empty None]
      closed remaining interp i pre inv
    by blast
qed

lemma GiveUp_run:
  "time_loop GiveUp () 1 1 (particle_at 0 0 1 Success) 1 []
     = Some (Inr (particle_at 0 0 0 Repeat), [])"
  by (simp add: time_loop.simps loop_body_def try_pyfunc_def dt_pos_of_def GiveUp_def
      particle_at_def)

theorem Repeat_particle_execute_witness:
  "time_loop GiveUp () 1 1 (particle_at 0 0 1 Success) 1 []
     = Some (Inr (particle_at 0 0 0 Repeat), [])
   \<and> time (particle_at 0 0 0 Repeat) = time (particle_at 0 0 1 Success)
   \<and> time_loop RepeatEast () 1 1 (particle_at 0 1 1 Success) 0 []
       = Some (Inr (particle_at 0 1 1 Success), [])
   \<and> time_loop RepeatEast () 1 1 (particle_at 1 0 1 Success) 1 [] = None
   \<and> execute Map.empty (scipy_kernel ''RepeatEast'' RepeatEast)
       (pset_of [particle_at 0 0 1 Success, particle_at 1 0 1 Success]) 1 1 None [] = None"
proof -
  let ?I = "\<lambda>q (v::user_ctx). 1 / 2 < lon q \<and> dt q = 1 \<and> time q = 0"
  let ?T = "\<lambda>(q::Particle) (v::user_ctx). True"
  let ?pset = "pset_of [particle_at 0 0 1 Success, particle_at 1 0 1 Success]"
  note stuck = Repeat_particle_execute
  have "\<forall>q v. ?T q v \<and> 0 < min \<bar>dt q\<bar> \<bar>1 - time q\<bar> \<longrightarrow>
        (\<exists>q' v'. GiveUp q () (time q) (1 * min \<bar>dt q\<bar> \<bar>1 - time q\<bar>) v
                    = ((Return (Some Repeat), q'), v')
           \<and> time q' = time q \<and> ?T (q'\<lparr>state := Repeat\<rparr>) v')"
    by (simp add: GiveUp_def)
  with stuck [THEN conjunct1, of ?T 1 GiveUp "()" 1 "particle_at 0 0 1 Success" "[]"]
  have "\<forall>r. time_loop GiveUp () 1 1 (particle_at 0 0 1 Success)
              (min \<bar>dt (particle_at 0 0 1 Success)\<bar> \<bar>1 - time (particle_at 0 0 1 Success)\<bar>) [] = Some r
          \<longrightarrow> (\<exists>q v. r = (Inr q, v) \<and> time q = time (particle_at 0 0 1 Success)
                 \<and> \<not> 0 < min \<bar>dt q\<bar> \<bar>1 - time q\<bar>)"
    by blast
  with GiveUp_run have c1: "time (particle_at 0 0 0 Repeat) = time (particle_at 0 0 1 Success)"
    by (simp add: particle_at_def)
  have c2: "time_loop RepeatEast () 1 1 (particle_at 0 1 1 Success) 0 []
       = Some (Inr (particle_at 0 1 1 Success), [])"
    using stuck [THEN conjunct1, of ?I 1 RepeatEast "()" 1 "particle_at 0 1 1 Success" "[]"]
    by (simp add: time_loop_exit)
  have c3: "time_loop RepeatEast () 1 1 (particle_at 1 0 1 Success) 1 [] = None"
    using stuck [THEN conjunct1, of ?I 1 RepeatEast "()" 1 "particle_at 1 0 1 Success" "[]"]
      RepeatEast_closed
    by (simp add: particle_at_def)
  have closed: "\<forall>q v. ?I q v \<and> 0 < min \<bar>dt q\<bar> \<bar>1 - time q\<bar> \<longrightarrow>
        (\<exists>q' v'. pyfunc (scipy_kernel ''RepeatEast'' RepeatEast) q (grid ?pset) (time q)
                    ((if 0 < (1::real) then 1 else - 1) * min \<bar>dt q\<bar> \<bar>1 - time q\<bar>) v
                    = ((Return (Some Repeat), q'), v')
           \<and> time q' = time q \<and> ?I (q'\<lparr>state := Repeat\<rparr>) v')"
    using RepeatEast_closed by (simp add: scipy_kernel_def)
  have pre: "execute_python (scipy_kernel ''RepeatEast'' RepeatEast)
               (?pset\<lparr>particles := take 1 (particles ?pset)\<rparr>) 1 1 []
             = Some (Inr (pset_of [particle_at 0 1 1 Success]), [])"
    using RepeatEast_west by (simp add: pset_of_def)
  have c4: "execute Map.empty (scipy_kernel ''RepeatEast'' RepeatEast) ?pset 1 1 None [] = None"
    using stuck [THEN conjunct2, of ?I 1 "scipy_kernel ''RepeatEast'' RepeatEast" ?pset 1 1 "[]"
                   "pset_of [particle_at 0 1 1 Success]" "[]" Map.empty None]
      closed pre
    by (simp add: scipy_kernel_def scipy_ptype_def pset_of_def particle_at_def)
  from GiveUp_run c1 c2 c3 c4 show ?thesis by blast
qed

section \<open>The recovery loop\<close>

lemma apply_recovery_enumerate:
  "apply_recovery rm
     (map fst (filter (\<lambda>ip. state (snd ip) \<notin> set [Success, Repeat]) (enumerate (length pre) xs)))
     (pre @ xs) w
   = (case spec_recover_all rm xs w of
        (Inl e, w') \<Rightarrow> (Inl e, w')
      | (Inr ys, w') \<Rightarrow> (Inr (pre @ ys), w'))"
proof (induction xs arbitrary: pre w)
  case Nil
  show ?case by simp
next
  case (Cons x xs)
  have tail: "apply_recovery rm
     (map fst (filter (\<lambda>ip. state (snd ip) \<notin> set [Success, Repeat]) (enumerate (Suc (length pre)) xs)))
     (pre @ y # xs) v
   = (case spec_recover_all rm xs v of
        (Inl e, w') \<Rightarrow> (Inl e, w')
      | (Inr ys, w') \<Rightarrow> (Inr (pre @ y # ys), w'))" for y v
    using Cons.IH[of "pre @ [y]" v]
    by (simp split: prod.splits sum.splits)
  show ?case
  proof (cases "state x \<noteq> Success \<and> state x \<noteq> Repeat")
    case False
    then show ?thesis using tail[of x w]
      by (auto split: prod.splits sum.splits)
  next
    case True
    show ?thesis
    proof (cases "rm (state x)")
      case None
      with True show ?thesis by (simp add: spec_recover_def)
    next
      case (Some k)
      obtain res w1 where k: "k (x\<lparr>state := Success\<rparr>) w = (res, w1)"
        by (cases "k (x\<lparr>state := Success\<rparr>) w")
      show ?thesis
      proof (cases res)
        case (Inl e)
        with True Some k show ?thesis by (simp add: spec_recover_def)
      next
        case (Inr y)
        with True Some k tail[of y w1] show ?thesis
          by (simp add: spec_recover_def split: prod.splits sum.splits)
      qed
    qed
  qed
qed

lemma apply_recovery_error_particles:
  "apply_recovery rm (error_particles pset) (particles pset) w
     = spec_recover_all rm (particles pset) w"
  using apply_recovery_enumerate[of rm "[]" "particles pset" w]
  by (simp add: error_particles_def split: prod.splits sum.splits)

lemma nth_selected:
  "map ((!) (pre @ xs)) (map fst (filter (\<lambda>ip. Q (snd ip)) (enumerate (length pre) xs)))
     = filter Q xs"
proof (induction xs arbitrary: pre)
  case Nil
  show ?case by simp
next
  case (Cons x xs)
  from Cons.IH[of "pre @ [x]"] show ?case by (simp add: nth_append)
qed

lemma nth_error_particles:
  "map ((!) (particles pset)) (error_particles pset)
     = filter (\<lambda>p. state p \<noteq> Success \<and> state p \<noteq> Repeat) (particles pset)"
  using nth_selected[of "[]" "particles pset" "\<lambda>p. state p \<notin> set [Success, Repeat]"]
  by (simp add: error_particles_def)

lemma recovery_loop_unfold:
  "recovery_loop self endtime d rm pset (error_particles pset) w =
     (if error_particles pset = [] then Some (Inr pset, w)
      else case spec_recover_all rm (particles pset) w of
             (Inl e, w') \<Rightarrow> Some (Inl e, w')
           | (Inr ps, w') \<Rightarrow>
               (case core_loop self (remove_deleted (pset\<lparr>particles := ps\<rparr>)) endtime d w' of
                  None \<Rightarrow> None
                | Some (Inl e, w'') \<Rightarrow> Some (Inl e, w'')
                | Some (Inr pset', w'') \<Rightarrow>
                    recovery_loop self endtime d rm pset' (error_particles pset') w''))"
  by (subst recovery_loop.simps)
     (simp add: recovery_pass_def apply_recovery_error_particles split: sum.splits prod.splits)

lemma execute_unfold:
  "execute base self pset endtime d recovery w =
     (case core_loop self pset endtime d w of
        None \<Rightarrow> None
      | Some (Inl e, w') \<Rightarrow> Some (Inl e, w')
      | Some (Inr pset1, w') \<Rightarrow>
          recovery_loop self endtime d
            (base ++ (case recovery of None \<Rightarrow> Map.empty | Some r \<Rightarrow> r))
            (remove_deleted pset1) (error_particles (remove_deleted pset1)) w')"
  by (simp add: execute_def Let_def split: option.splits sum.splits prod.splits)

text \<open>
  Claim C3. After the core loop, \<^verbatim>\<open>Kernel.execute\<close> removes every particle whose state is
  \<open>Delete\<close> and collects the particles whose state is neither \<open>Success\<close> nor \<open>Repeat\<close>
  (first, second and fourth conjunct). While that collection is not empty, it looks up
  \<^verbatim>\<open>recovery_map[p.state]\<close> for each such particle, sets \<^verbatim>\<open>p.state = Success\<close> and invokes the
  recovery kernel on the particle (third conjunct: the loop over the collected references
  does what the specification says for each particle, in the same user context); it then
  removes the \<open>Delete\<close> particles again, runs the core loop again and collects the error
  particles again (fifth conjunct).
\<close>

theorem execute_recovery_structure:
  "particles (remove_deleted pset) = filter (\<lambda>p. state p \<noteq> Delete) (particles pset)
   \<and> map ((!) (particles pset)) (error_particles pset)
       = filter (\<lambda>p. state p \<noteq> Success \<and> state p \<noteq> Repeat) (particles pset)
   \<and> apply_recovery rm (error_particles pset) (particles pset) w
       = spec_recover_all rm (particles pset) w
   \<and> execute base self pset endtime d recovery w =
       (case core_loop self pset endtime d w of
          None \<Rightarrow> None
        | Some (Inl e, w') \<Rightarrow> Some (Inl e, w')
        | Some (Inr pset1, w') \<Rightarrow>
            recovery_loop self endtime d
              (base ++ (case recovery of None \<Rightarrow> Map.empty | Some r \<Rightarrow> r))
              (remove_deleted pset1) (error_particles (remove_deleted pset1)) w')
   \<and> recovery_loop self endtime d rm pset (error_particles pset) w =
       (if error_particles pset = [] then Some (Inr pset, w)
        else case spec_recover_all rm (particles pset) w of
               (Inl e, w') \<Rightarrow> Some (Inl e, w')
             | (Inr ps, w') \<Rightarrow>
                 (case core_loop self (remove_deleted (pset\<lparr>particles := ps\<rparr>)) endtime d w' of
                    None \<Rightarrow> None
                  | Some (Inl e, w'') \<Rightarrow> Some (Inl e, w'')
                  | Some (Inr pset', w'') \<Rightarrow>
                      recovery_loop self endtime d rm pset' (error_particles pset') w''))"
  using particles_remove_deleted [of pset] nth_error_particles [of pset]
    apply_recovery_error_particles [of rm pset w]
    execute_unfold [of base self pset endtime d recovery w]
    recovery_loop_unfold [of self endtime d rm pset w]
  by blast

lemma AdvectEast_core:
  "core_loop (scipy_kernel ''AdvectEast'' AdvectEast) (pset_of [particle_at (99/100) 0 1 Success]) 2 1 []
     = Some (Inr (pset_of [outside_particle]), [])"
  by (simp add: core_loop_def execute_python_def time_loop.simps
      loop_body_def try_pyfunc_def dt_pos_of_def sign_of_def
      particle_at_def pset_of_def scipy_kernel_def
      scipy_ptype_def AdvectEast_def outside_particle_def)

lemma core_loop_empty:
  "core_loop (scipy_kernel nm f) (pset_of []) endtime d w = Some (Inr (pset_of []), w)"
  by (simp add: core_loop_def execute_python_def pset_of_def scipy_kernel_def scipy_ptype_def)

theorem execute_recovery_structure_witness:
  "execute [ErrorOutOfBounds \<mapsto> recovery_kernel_delete] (scipy_kernel ''AdvectEast'' AdvectEast)
     (pset_of [particle_at (99/100) 0 1 Success]) 2 1 None []
   = Some (Inr (pset_of []), [])"
proof -
  note struct = execute_recovery_structure
  note ex = struct [THEN conjunct2, THEN conjunct2, THEN conjunct2, THEN conjunct1]
  note loop = struct [THEN conjunct2, THEN conjunct2, THEN conjunct2, THEN conjunct2]
  have rd: "remove_deleted (pset_of [outside_particle]) = pset_of [outside_particle]"
    by (simp add: remove_deleted_def remove_def enumerate_eq_zip pset_of_def outside_particle_def)
  have errs: "error_particles (pset_of [outside_particle]) \<noteq> []"
    by (simp add: error_particles_def enumerate_eq_zip pset_of_def outside_particle_def)
  have rec: "spec_recover_all [ErrorOutOfBounds \<mapsto> recovery_kernel_delete]
               (particles (pset_of [outside_particle])) []
             = (Inr [outside_particle\<lparr>state := Delete\<rparr>], [])"
    by (simp add: spec_recover_def recovery_kernel_delete_def pset_of_def outside_particle_def)
  have rd2: "remove_deleted ((pset_of [outside_particle])\<lparr>particles := [outside_particle\<lparr>state := Delete\<rparr>]\<rparr>)
               = pset_of []"
    by (simp add: remove_deleted_def remove_def enumerate_eq_zip pset_of_def outside_particle_def)
  have none: "error_particles (pset_of []) = []"
    by (simp add: error_particles_def pset_of_def)
  have "recovery_loop (scipy_kernel ''AdvectEast'' AdvectEast) 2 1
          [ErrorOutOfBounds \<mapsto> recovery_kernel_delete] (pset_of []) (error_particles (pset_of [])) []
        = Some (Inr (pset_of []), [])"
    by (subst loop) (simp add: none)
  then have "recovery_loop (scipy_kernel ''AdvectEast'' AdvectEast) 2 1
          [ErrorOutOfBounds \<mapsto> recovery_kernel_delete] (pset_of [outside_particle])
          (error_particles (pset_of [outside_particle])) []
        = Some (Inr (pset_of []), [])"
    by (subst loop) (simp add: errs rec rd2 core_loop_empty)
  then show ?thesis
    by (subst ex) (simp add: AdvectEast_core rd)
qed

section \<open>A recovery that does not help\<close>

lemma recovery_loop_fixed_point_aux:
  assumes "recovery_loop self endtime d rm pset errs w = Some r"
  shows "\<not> (errs \<noteq> [] \<and> errs = error_particles pset \<and>
            recovery_pass self endtime d rm pset errs w = Some (Inr pset, w))"
proof (rule recovery_loop.raw_induct
         [where P = "\<lambda>self endtime d rm pset errs w r.
            \<not> (errs \<noteq> [] \<and> errs = error_particles pset \<and>
               recovery_pass self endtime d rm pset errs w = Some (Inr pset, w))",
          OF _ assms], goal_cases)
  case (1 loop self endtime d rm pset errs w r)
  note step = 1(1) and body = 1(2)
  show ?case
  proof (intro notI, elim conjE)
    assume ne: "errs \<noteq> []" and errs: "errs = error_particles pset"
      and pass: "recovery_pass self endtime d rm pset errs w = Some (Inr pset, w)"
    from body ne pass errs have "loop self endtime d rm pset errs w = Some r"
      by simp
    from step[OF this] ne errs pass show False by simp
  qed
qed

lemma recovery_loop_fixed_point:
  assumes "error_particles pset \<noteq> []"
    and "recovery_pass self endtime d rm pset (error_particles pset) w = Some (Inr pset, w)"
  shows "recovery_loop self endtime d rm pset (error_particles pset) w = None"
proof (cases "recovery_loop self endtime d rm pset (error_particles pset) w")
  case (Some r)
  from recovery_loop_fixed_point_aux[OF this] assms show ?thesis by simp
qed simp

lemma execute_fixed_point:
  assumes "core_loop self pset0 endtime d w0 = Some (Inr pset1, w)"
    and "error_particles (remove_deleted pset1) \<noteq> []"
    and "recovery_pass self endtime d (base ++ (case recovery of None \<Rightarrow> Map.empty | Some r \<Rightarrow> r))
           (remove_deleted pset1) (error_particles (remove_deleted pset1)) w
         = Some (Inr (remove_deleted pset1), w)"
  shows "execute base self pset0 endtime d recovery w0 = None"
  using assms(1) recovery_loop_fixed_point[OF assms(2,3)]
  by (simp add: execute_def)

text \<open>
  Claim C5, as amended. \<^verbatim>\<open>Kernel.execute\<close> has no detection of a fixed point. If a pass of
  the recovery loop (recovery kernels, removal of the deleted particles, core loop) ends
  with the particle set it began with, and so with the same non-empty error set, and with
  the user context it began with (all the state that the kernel and the recovery kernels
  read besides the particles: globals, the random generator), then the next pass does the
  same and the loop runs forever: \<^verbatim>\<open>execute\<close> neither returns nor raises an error. This
  holds at any pass (first conjunct) and so for a call of \<^verbatim>\<open>execute\<close> whose first pass is
  such a fixed point (second conjunct). An unchanged particle set alone decides nothing:
  a recovery kernel that counts its calls in the user context can end the loop later.
\<close>

theorem recovery_fixed_point_loops:
  "(error_particles pset \<noteq> [] \<and>
    recovery_pass self endtime d rm pset (error_particles pset) w = Some (Inr pset, w) \<longrightarrow>
      recovery_loop self endtime d rm pset (error_particles pset) w = None)
   \<and> (core_loop self pset0 endtime d w0 = Some (Inr pset1, w) \<and>
      error_particles (remove_deleted pset1) \<noteq> [] \<and>
      recovery_pass self endtime d (base ++ (case recovery of None \<Rightarrow> Map.empty | Some r \<Rightarrow> r))
        (remove_deleted pset1) (error_particles (remove_deleted pset1)) w
        = Some (Inr (remove_deleted pset1), w) \<longrightarrow>
      execute base self pset0 endtime d recovery w0 = None)"
  using recovery_loop_fixed_point [of pset self endtime d rm w]
    execute_fixed_point [of self pset0 endtime d w0 pset1 w base recovery]
  by blast

lemma Fails_core:
  "core_loop (scipy_kernel ''Fails'' Fails) (pset_of [particle_at 0 0 1 Success]) 1 1 []
     = Some (Inr (pset_of [failed_particle]), [])"
  by (simp add: core_loop_def execute_python_def time_loop.simps
      loop_body_def try_pyfunc_def dt_pos_of_def sign_of_def
      particle_at_def pset_of_def scipy_kernel_def
      scipy_ptype_def Fails_def failed_particle_def)

lemma Fails_errors: "error_particles (pset_of [failed_particle]) = [0]"
  by (simp add: error_particles_def enumerate_eq_zip particle_at_def pset_of_def
      failed_particle_def)

lemma Fails_removed: "remove_deleted (pset_of [failed_particle]) = pset_of [failed_particle]"
  by (simp add: remove_deleted_def remove_def enumerate_eq_zip particle_at_def pset_of_def
      failed_particle_def)

lemma Fails_pass:
  "recovery_pass (scipy_kernel ''Fails'' Fails) 1 1
     [Error \<mapsto> recovery_kernel_ignore]
     (pset_of [failed_particle]) [0] [] = Some (Inr (pset_of [failed_particle]), [])"
  by (simp add: core_loop_def execute_python_def time_loop.simps
      loop_body_def try_pyfunc_def dt_pos_of_def sign_of_def remove_deleted_def remove_def
      recovery_pass_def enumerate_eq_zip
      particle_at_def pset_of_def scipy_kernel_def
      scipy_ptype_def Fails_def failed_particle_def recovery_kernel_ignore_def)

lemma Idle_pass:
  "recovery_pass (scipy_kernel ''Idle'' Idle) 1 1
     [Error \<mapsto> recovery_kernel_mark_error]
     (pset_of [particle_at 0 1 1 Error]) [0] [] = Some (Inr (pset_of [particle_at 0 1 1 Error]), [])"
  by (simp add: core_loop_def execute_python_def time_loop.simps
      loop_body_def try_pyfunc_def dt_pos_of_def sign_of_def remove_deleted_def remove_def
      recovery_pass_def enumerate_eq_zip
      particle_at_def pset_of_def scipy_kernel_def
      scipy_ptype_def Idle_def recovery_kernel_mark_error_def)

lemma Idle_core:
  "core_loop (scipy_kernel ''Idle'' Idle) (pset_of [particle_at 0 1 1 Error]) 1 1 w
     = Some (Inr (pset_of [particle_at 0 1 1 Error]), w)"
  by (simp add: core_loop_def execute_python_def time_loop.simps
      dt_pos_of_def sign_of_def particle_at_def pset_of_def scipy_kernel_def scipy_ptype_def)

lemma Idle_removed:
  "remove_deleted (pset_of [particle_at 0 1 1 Error]) = pset_of [particle_at 0 1 1 Error]"
  by (simp add: remove_deleted_def remove_def enumerate_eq_zip particle_at_def pset_of_def)

lemma Idle_errors: "error_particles (pset_of [particle_at 0 1 1 Error]) = [0]"
  by (simp add: error_particles_def enumerate_eq_zip particle_at_def pset_of_def)

lemma retry_pass:
  "0 < n \<Longrightarrow>
   recovery_pass (scipy_kernel ''Idle'' Idle) 1 1 [Error \<mapsto> recovery_kernel_retry]
     (pset_of [particle_at 0 1 1 Error]) [0] [(''retries'', Number n)]
   = Some (Inr (pset_of [particle_at 0 1 1 Error]), [(''retries'', Number (n - 1))])"
  by (simp add: core_loop_def execute_python_def time_loop.simps
      dt_pos_of_def sign_of_def remove_deleted_def remove_def
      recovery_pass_def enumerate_eq_zip
      particle_at_def pset_of_def scipy_kernel_def
      scipy_ptype_def recovery_kernel_retry_def)

lemma retry_last_pass:
  "recovery_pass (scipy_kernel ''Idle'' Idle) 1 1 [Error \<mapsto> recovery_kernel_retry]
     (pset_of [particle_at 0 1 1 Error]) [0] [(''retries'', Number 0)]
   = Some (Inr (pset_of []), [(''retries'', Number 0)])"
  by (simp add: core_loop_def execute_python_def
      remove_deleted_def remove_def
      recovery_pass_def enumerate_eq_zip
      particle_at_def pset_of_def scipy_kernel_def
      scipy_ptype_def recovery_kernel_retry_def)

lemma retry_execute:
  "execute Map.empty (scipy_kernel ''Idle'' Idle) (pset_of [particle_at 0 1 1 Error]) 1 1
     (Some [Error \<mapsto> recovery_kernel_retry]) [(''retries'', Number 2)]
   = Some (Inr (pset_of []), [(''retries'', Number 0)])"
proof -
  let ?loop = "recovery_loop (scipy_kernel ''Idle'' Idle) 1 1 [Error \<mapsto> recovery_kernel_retry]"
  have l0: "?loop (pset_of []) (error_particles (pset_of [])) [(''retries'', Number 0)]
              = Some (Inr (pset_of []), [(''retries'', Number 0)])"
    by (subst recovery_loop.simps) (simp add: error_particles_def pset_of_def)
  have l1: "?loop (pset_of [particle_at 0 1 1 Error]) [0] [(''retries'', Number 0)]
              = Some (Inr (pset_of []), [(''retries'', Number 0)])"
    by (subst recovery_loop.simps) (simp add: retry_last_pass l0)
  have l2: "?loop (pset_of [particle_at 0 1 1 Error]) [0] [(''retries'', Number 1)]
              = Some (Inr (pset_of []), [(''retries'', Number 0)])"
    using retry_pass[of 1]
    by (subst recovery_loop.simps) (simp add: Idle_errors l1)
  have l3: "?loop (pset_of [particle_at 0 1 1 Error]) [0] [(''retries'', Number 2)]
              = Some (Inr (pset_of []), [(''retries'', Number 0)])"
    using retry_pass[of 2]
    by (subst recovery_loop.simps) (simp add: Idle_errors l2)
  show ?thesis
    by (simp add: execute_def Idle_core Idle_removed Idle_errors l3)
qed

text \<open>
  The claim as stated fails. With a kernel that fails on every call and a recovery kernel
  that does nothing, for one particle at time \<open>0\<close> with time step \<open>1\<close> and end time \<open>1\<close>,
  \<^verbatim>\<open>execute\<close> does not terminate: it raises no error (first conjunct). And with the
  recovery kernel that marks the particle as failed twice and deletes it at the third
  call, two passes in succession end with the same particle set and the same error set,
  and \<^verbatim>\<open>execute\<close> goes on and returns normally: no fixed point is detected (second to
  fourth conjunct).
\<close>

theorem recovery_fixed_point_loops_counterexample:
  "execute Map.empty (scipy_kernel ''Fails'' Fails) (pset_of [particle_at 0 0 1 Success]) 1 1
     (Some [Error \<mapsto> recovery_kernel_ignore]) [] = None
   \<and> recovery_pass (scipy_kernel ''Idle'' Idle) 1 1 [Error \<mapsto> recovery_kernel_retry]
       (pset_of [particle_at 0 1 1 Error]) (error_particles (pset_of [particle_at 0 1 1 Error]))
       [(''retries'', Number 2)]
     = Some (Inr (pset_of [particle_at 0 1 1 Error]), [(''retries'', Number 1)])
   \<and> recovery_pass (scipy_kernel ''Idle'' Idle) 1 1 [Error \<mapsto> recovery_kernel_retry]
       (pset_of [particle_at 0 1 1 Error]) (error_particles (pset_of [particle_at 0 1 1 Error]))
       [(''retries'', Number 1)]
     = Some (Inr (pset_of [particle_at 0 1 1 Error]), [(''retries'', Number 0)])
   \<and> execute Map.empty (scipy_kernel ''Idle'' Idle) (pset_of [particle_at 0 1 1 Error]) 1 1
       (Some [Error \<mapsto> recovery_kernel_retry]) [(''retries'', Number 2)]
     = Some (Inr (pset_of []), [(''retries'', Number 0)])"
proof -
  have "execute Map.empty (scipy_kernel ''Fails'' Fails) (pset_of [particle_at 0 0 1 Success]) 1 1
     (Some [Error \<mapsto> recovery_kernel_ignore]) [] = None"
    by (rule execute_fixed_point[OF Fails_core]) (simp_all add: Fails_errors Fails_removed Fails_pass)
  then show ?thesis
    using retry_pass[of 2] retry_pass[of 1] retry_execute by (simp add: Idle_errors)
qed

theorem recovery_fixed_point_loops_witness:
  "recovery_loop (scipy_kernel ''Fails'' Fails) 1 1 [Error \<mapsto> recovery_kernel_ignore]
     (pset_of [failed_particle]) (error_particles (pset_of [failed_particle])) [] = None
   \<and> execute Map.empty (scipy_kernel ''Idle'' Idle) (pset_of [particle_at 0 1 1 Error]) 1 1
     (Some [Error \<mapsto> recovery_kernel_mark_error]) [] = None"
proof -
  note fp = recovery_fixed_point_loops
  have c1: "recovery_loop (scipy_kernel ''Fails'' Fails) 1 1 [Error \<mapsto> recovery_kernel_ignore]
     (pset_of [failed_particle]) (error_particles (pset_of [failed_particle])) [] = None"
    using fp [THEN conjunct1, of "pset_of [failed_particle]" "scipy_kernel ''Fails'' Fails" 1 1
                "[Error \<mapsto> recovery_kernel_ignore]" "[]"]
    by (simp add: Fails_errors Fails_pass)
  have c2: "execute Map.empty (scipy_kernel ''Idle'' Idle) (pset_of [particle_at 0 1 1 Error]) 1 1
     (Some [Error \<mapsto> recovery_kernel_mark_error]) [] = None"
    using fp [THEN conjunct2, of "scipy_kernel ''Idle'' Idle" "pset_of [particle_at 0 1 1 Error]" 1 1
                "[]" "pset_of [particle_at 0 1 1 Error]" "[]" Map.empty
                "Some [Error \<mapsto> recovery_kernel_mark_error]"]
    by (simp add: Idle_core Idle_removed Idle_errors Idle_pass)
  from c1 c2 show ?thesis by blast
qed

section \<open>Concatenation of kernels\<close>

lemma Kernel_init_explicit:
  assumes "Kernel_init env g pt None (Some fname) (Some fcode) (Some fd) (Some fvars) w = (Inr k, w')"
  shows "fname \<noteq> [] \<and> fvars \<noteq> [] \<and> fcode \<noteq> [] \<and>
         exec_function env fd fname w = (Inr (pyfunc k), w') \<and>
         (if uses_jit pt
          then map_sum id Some (generate_jit env g pt (ptype_name pt @ fname) fname fd fvars) = Inr (jit k)
          else jit k = None) \<and>
         k = \<lparr>kgrid = g, ptype = pt, funcname = fname, funcvars = fvars, funccode = fcode,
              py_ast = fd, pyfunc = pyfunc k, name = ptype_name pt @ fname, jit = jit k,
              lib_function = None\<rparr>"
  using assms
  by (auto simp: Kernel_init_def pyfunc_attr_def Let_def split: if_splits sum.splits prod.splits)

lemma merge_Inr:
  assumes "merge env a b w = (Inr k, w')"
  shows "kgrid k = kgrid a" and "ptype k = ptype a"
    and "funcname k = funcname a @ funcname b"
    and "funcvars k = funcvars a @ funcvars b"
    and "funccode k = funccode a @ funccode b"
    and "py_ast k = func_ast a b"
    and "name k = ptype_name (ptype a) @ funcname a @ funcname b"
    and "lib_function k = None"
    and "exec_function env (func_ast a b) (funcname a @ funcname b) w = (Inr (pyfunc k), w')"
    and "if uses_jit (ptype a)
         then map_sum id Some (generate_jit env (kgrid a) (ptype a)
                (ptype_name (ptype a) @ funcname a @ funcname b) (funcname a @ funcname b)
                (func_ast a b) (funcvars a @ funcvars b)) = Inr (jit k)
         else jit k = None"
proof -
  note ex = Kernel_init_explicit[OF assms[unfolded merge_def Let_def], folded func_ast_def]
  from ex have k: "k = \<lparr>kgrid = kgrid a, ptype = ptype a, funcname = funcname a @ funcname b,
       funcvars = funcvars a @ funcvars b, funccode = funccode a @ funccode b,
       py_ast = func_ast a b, pyfunc = pyfunc k,
       name = ptype_name (ptype a) @ funcname a @ funcname b, jit = jit k, lib_function = None\<rparr>"
    by simp
  show "kgrid k = kgrid a" by (subst k) simp
  show "ptype k = ptype a" by (subst k) simp
  show "funcname k = funcname a @ funcname b" by (subst k) simp
  show "funcvars k = funcvars a @ funcvars b" by (subst k) simp
  show "funccode k = funccode a @ funccode b" by (subst k) simp
  show "py_ast k = func_ast a b" by (subst k) simp
  show "name k = ptype_name (ptype a) @ funcname a @ funcname b" by (subst k) simp
  show "lib_function k = None" by (subst k) simp
  from ex show "exec_function env (func_ast a b) (funcname a @ funcname b) w = (Inr (pyfunc k), w')"
    by simp
  from ex show "if uses_jit (ptype a)
         then map_sum id Some (generate_jit env (kgrid a) (ptype a)
                (ptype_name (ptype a) @ funcname a @ funcname b) (funcname a @ funcname b)
                (func_ast a b) (funcvars a @ funcvars b)) = Inr (jit k)
         else jit k = None" by simp
qed

lemma add_Kernel: "add env a (Inr b) w = merge env a b w"
  by (simp add: add_def as_kernel_def)


lemma merge_interpreted:
  assumes "funcname a @ funcname b \<noteq> []" and "funcvars a @ funcvars b \<noteq> []"
    and "funccode a @ funccode b \<noteq> []"
    and "exec_function env (func_ast a b) (funcname a @ funcname b) w = (Inr fn, w')"
    and "\<not> uses_jit (ptype a)"
  shows "merge env a b w =
           (Inr \<lparr>kgrid = kgrid a, ptype = ptype a, funcname = funcname a @ funcname b,
                funcvars = funcvars a @ funcvars b, funccode = funccode a @ funccode b,
                py_ast = func_ast a b, pyfunc = fn,
                name = ptype_name (ptype a) @ funcname a @ funcname b,
                jit = None, lib_function = None\<rparr>, w')"
  using assms
  by (simp add: merge_def Kernel_init_def Let_def func_ast_def)

lemma example_exec_function:
  "example_exec fd (fd_name fd) w =
     (Inr (run_body (body fd)),
      AList.update (fd_name fd) (Function (body fd))
        (AList.update ''ErrorCode'' (Imported ''ErrorCode'')
          (AList.update ''random'' (Imported ''random'')
            (AList.update ''math'' (Imported ''math'') w))))"
  by (simp add: example_exec_def Let_def update_conv')

lemma add_source_kernel:
  assumes "n1 @ n2 \<noteq> []" and "0 < k1 + k2" and "c1 @ c2 \<noteq> []"
  shows "add example_env (source_kernel n1 k1 c1 s1) (Inr (source_kernel n2 k2 c2 s2)) w =
           (Inr (source_kernel (n1 @ n2) (k1 + k2) (c1 @ c2) (s1 @ s2)),
            AList.update (n1 @ n2) (Function (s1 @ s2))
              (AList.update ''ErrorCode'' (Imported ''ErrorCode'')
                (AList.update ''random'' (Imported ''random'')
                  (AList.update ''math'' (Imported ''math'') w))))"
proof -
  let ?a = "source_kernel n1 k1 c1 s1" and ?b = "source_kernel n2 k2 c2 s2"
  have fd: "fd_name (func_ast ?a ?b) = funcname ?a @ funcname ?b"
    "body (func_ast ?a ?b) = s1 @ s2"
    by (simp_all add: func_ast_def source_kernel_def)
  have ex: "exec_function example_env (func_ast ?a ?b) (funcname ?a @ funcname ?b) w =
          (Inr (run_body (s1 @ s2)),
           AList.update (n1 @ n2) (Function (s1 @ s2))
              (AList.update ''ErrorCode'' (Imported ''ErrorCode'')
                (AList.update ''random'' (Imported ''random'')
                  (AList.update ''math'' (Imported ''math'') w))))"
    using example_exec_function[of "func_ast ?a ?b" w] fd
    by (simp add: example_env_def source_kernel_def)
  have vars: "funcvars ?a @ funcvars ?b \<noteq> []"
    using assms(2) by (cases k1; cases k2) (simp_all add: source_kernel_def)
  have "merge example_env ?a ?b w =
          (Inr \<lparr>kgrid = kgrid ?a, ptype = ptype ?a, funcname = funcname ?a @ funcname ?b,
                funcvars = funcvars ?a @ funcvars ?b, funccode = funccode ?a @ funccode ?b,
                py_ast = func_ast ?a ?b, pyfunc = run_body (s1 @ s2),
                name = ptype_name (ptype ?a) @ funcname ?a @ funcname ?b,
                jit = None, lib_function = None\<rparr>,
           AList.update (n1 @ n2) (Function (s1 @ s2))
              (AList.update ''ErrorCode'' (Imported ''ErrorCode'')
                (AList.update ''random'' (Imported ''random'')
                  (AList.update ''math'' (Imported ''math'') w))))"
    using assms(1,3) vars
    by (intro merge_interpreted ex) (simp_all add: source_kernel_def scipy_ptype_def)
  then show ?thesis
    by (simp add: add_Kernel source_kernel_def func_ast_def scipy_ptype_def replicate_add)
qed

lemma add_A_B: "add example_env kernel_A (Inr kernel_B) ctx0 = (Inr kernel_AB, ctx_AB)"
  using add_source_kernel[of "''A''" "''B''" 1 1 "def_line ''A'' ''pass''" "def_line ''B'' stmt_B"
          "[''pass'']" "[stmt_B]" ctx0]
  by (simp add: kernel_A_def kernel_B_def kernel_AB_def def_line_def ctx0_def ctx_AB_def
      imports_ctx_def numeral_2_eq_2)




lemma Kernel_init_name:
  assumes "Kernel_init env g pt pf fname_arg fcode_arg ast_arg fvars_arg w = (Inr k, w')"
  shows "name k = ptype_name (ptype k) @ funcname k"
  using assms
  by (auto simp: Kernel_init_def Let_def split: sum.splits prod.splits)

text \<open>
  Claim C7, as amended. For all kernels \<open>A\<close> and \<open>B\<close>, \<open>A + B\<close> produces a new kernel whose
  function name is the concatenation of the function names of \<open>A\<close> and \<open>B\<close>, whose name is
  the name of the particle type of \<open>A\<close> followed by that function name (the name of \<open>A\<close>
  followed by the function name of \<open>B\<close>, since every kernel is named after its particle
  type and its function: second conjunct), whose body is the body of \<open>A\<close> followed by the
  body of \<open>B\<close> under one function header with the parameter list of \<open>A\<close>, and whose recorded
  source is the source of \<open>A\<close> followed by the source of \<open>B\<close>.
\<close>

theorem add_attributes:
  "(add env a (Inr b) w = (Inr k, w') \<longrightarrow>
      funcname k = funcname a @ funcname b
      \<and> name k = ptype_name (ptype a) @ funcname a @ funcname b
      \<and> py_ast k = \<lparr>fd_name = funcname a @ funcname b, args = args (py_ast a),
                     body = body (py_ast a) @ body (py_ast b),
                     decorator_list = [], lineno = 1, col_offset = 0\<rparr>
      \<and> funccode k = funccode a @ funccode b)
   \<and> (Kernel_init env g pt pf fname_arg fcode_arg ast_arg fvars_arg w = (Inr a, w') \<longrightarrow>
        name a = ptype_name (ptype a) @ funcname a)"
proof (intro conjI impI)
  assume "add env a (Inr b) w = (Inr k, w')"
  then have m: "merge env a b w = (Inr k, w')" by (simp only: add_Kernel)
  note M = merge_Inr[OF m]
  show "funcname k = funcname a @ funcname b" by (rule M)
  show "name k = ptype_name (ptype a) @ funcname a @ funcname b" by (rule M)
  show "py_ast k = \<lparr>fd_name = funcname a @ funcname b, args = args (py_ast a),
                     body = body (py_ast a) @ body (py_ast b),
                     decorator_list = [], lineno = 1, col_offset = 0\<rparr>"
    using M(6) by (simp add: func_ast_def)
  show "funccode k = funccode a @ funccode b" by (rule M)
next
  assume "Kernel_init env g pt pf fname_arg fcode_arg ast_arg fvars_arg w = (Inr a, w')"
  then show "name a = ptype_name (ptype a) @ funcname a" by (rule Kernel_init_name)
qed

lemma Kernel_init_A:
  "Kernel_init example_env () scipy_ptype (Some (pyfunction_of ''A'' ''pass'')) None None None None w
     = (Inr kernel_A, w)"
proof -
  have "fix_indentation (def_line ''A'' ''pass'') = def_line ''A'' ''pass''"
    by (simp add: fix_indentation_def is_space_def def_line_def)
  then show ?thesis
    by (simp add: Kernel_init_def pyfunc_attr_def pyfunction_of_def example_env_def
        scipy_ptype_def kernel_A_def source_kernel_def def_line_def)
qed

lemma Kernel_init_B:
  "Kernel_init example_env () scipy_ptype (Some (pyfunction_of ''B'' stmt_B)) None None None None w
     = (Inr kernel_B, w)"
proof -
  have "fix_indentation (def_line ''B'' stmt_B) = def_line ''B'' stmt_B"
    by (simp add: fix_indentation_def is_space_def def_line_def stmt_B_def)
  then show ?thesis
    by (simp add: Kernel_init_def pyfunc_attr_def pyfunction_of_def example_env_def
        scipy_ptype_def kernel_B_def source_kernel_def def_line_def stmt_B_def)
qed

text \<open>
  The claim as stated fails: for the kernels of two functions \<open>A\<close> and \<open>B\<close> on the particle
  type \<open>Particle\<close>, the name of \<open>A + B\<close> is \<open>ParticleAB\<close>, and the concatenation of the two
  names is \<open>ParticleAParticleB\<close>.
\<close>

theorem add_attributes_counterexample:
  "Kernel_init example_env () scipy_ptype (Some (pyfunction_of ''A'' ''pass'')) None None None None ctx0
     = (Inr kernel_A, ctx0)
   \<and> Kernel_init example_env () scipy_ptype (Some (pyfunction_of ''B'' stmt_B)) None None None None ctx0
     = (Inr kernel_B, ctx0)
   \<and> add example_env kernel_A (Inr kernel_B) ctx0 = (Inr kernel_AB, ctx_AB)
   \<and> name kernel_AB = ''ParticleAB''
   \<and> name kernel_A @ name kernel_B = ''ParticleAParticleB''"
  using Kernel_init_A Kernel_init_B add_A_B
  by (simp add: kernel_AB_def kernel_A_def kernel_B_def source_kernel_def)

theorem add_attributes_witness:
  "funcname kernel_AB = funcname kernel_A @ funcname kernel_B
   \<and> name kernel_AB = ''ParticleAB''
   \<and> body (py_ast kernel_AB) = body (py_ast kernel_A) @ body (py_ast kernel_B)
   \<and> funccode kernel_AB = funccode kernel_A @ funccode kernel_B
   \<and> name kernel_A = ''ParticleA''"
  using add_attributes [THEN conjunct1, of example_env kernel_A kernel_B ctx0 kernel_AB ctx_AB]
    add_attributes [THEN conjunct2, of example_env "()" scipy_ptype "Some (pyfunction_of ''A'' ''pass'')"
                      None None None None ctx0 kernel_A ctx0]
    add_A_B Kernel_init_A
  by (simp add: kernel_A_def kernel_B_def source_kernel_def scipy_ptype_def)

section \<open>Execution in user contexts that the kernel cannot tell apart\<close>





















section \<open>The cache key\<close>

lemma cache_key_jit:
  assumes "jit k = Some j"
  shows "cache_key env k =
           Inr (md5_hexdigest env
                  (name k @ ptype_cache_key (ptype k) @
                   str_join ''-'' (map (\<lambda>nf. fst nf @ '':'' @ units_class_name (snd nf))
                                       (field_args j))))"
proof -
  have fk: "field_key = (\<lambda>nf. fst nf @ '':'' @ units_class_name (snd nf))"
    by (rule ext) (simp add: field_key_def)
  from assms show ?thesis
    by (simp add: cache_key_def cache_key_of_def fk)
qed

lemma Kernel_init_jit:
  assumes "Kernel_init env g pt pf fname_arg fcode_arg ast_arg fvars_arg w = (Inr k, w')"
    and "uses_jit pt"
  shows "\<exists>j key. jit k = Some j \<and> cache_key env k = Inr key
           \<and> src_file j = path_join env (get_cache_dir env) key @ ''.c''
           \<and> lib_file j = path_join env (get_cache_dir env) key @ ''.so''
           \<and> log_file j = path_join env (get_cache_dir env) key @ ''.log''"
  using assms
  by (auto simp: Kernel_init_def Let_def generate_jit_def cache_key_def
           split: sum.splits prod.splits)

text \<open>
  Claim C9. For every JIT kernel, the compile-cache key equals the MD5 hex digest of the
  kernel name, followed by the cache key string of the particle type, followed by the
  entries \<open>field_name:unit_tag_class_name\<close> of the fields the kernel references, joined by
  \<open>-\<close> (first conjunct). It is the key under which the constructor names the source file,
  the library and the log file in the cache directory (second conjunct).
\<close>

theorem cache_key_md5:
  "(jit k = Some j \<longrightarrow>
      cache_key env k =
        Inr (md5_hexdigest env
               (name k @ ptype_cache_key (ptype k) @
                str_join ''-'' (map (\<lambda>nf. fst nf @ '':'' @ units_class_name (snd nf))
                                    (field_args j)))))
   \<and> (Kernel_init env g pt pf fname_arg fcode_arg ast_arg fvars_arg w = (Inr k, w') \<and> uses_jit pt \<longrightarrow>
        (\<exists>j key. jit k = Some j \<and> cache_key env k = Inr key
           \<and> src_file j = path_join env (get_cache_dir env) key @ ''.c''
           \<and> lib_file j = path_join env (get_cache_dir env) key @ ''.so''
           \<and> log_file j = path_join env (get_cache_dir env) key @ ''.log''))"
  using cache_key_jit [of k j env]
    Kernel_init_jit [of env g pt pf fname_arg fcode_arg ast_arg fvars_arg w k w']
  by blast

lemma Kernel_init_AdvectionEE:
  "Kernel_init example_env () jit_ptype (Some (pyfunction_of ''AdvectionEE'' ''pass''))
     None None None None w = (Inr AdvectionEE_jit, w)"
proof -
  have "fix_indentation (def_line ''AdvectionEE'' ''pass'') = def_line ''AdvectionEE'' ''pass''"
    by (simp add: fix_indentation_def is_space_def def_line_def)
  then show ?thesis
    by (simp add: Kernel_init_def pyfunc_attr_def pyfunction_of_def example_env_def
      jit_ptype_def AdvectionEE_jit_def AdvectionEE_code_def generate_jit_def cache_key_of_def
      field_key_def def_line_def)
qed

theorem cache_key_md5_witness:
  "cache_key example_env AdvectionEE_jit
     = Inr ''md5:JITParticleAdvectionEEJITParticle:lon:latU:Geographic-V:GeographicPolar''
   \<and> (\<exists>j key. jit AdvectionEE_jit = Some j \<and> cache_key example_env AdvectionEE_jit = Inr key
         \<and> src_file j = ''/tmp/parcels/'' @ key @ ''.c''
         \<and> lib_file j = ''/tmp/parcels/'' @ key @ ''.so''
         \<and> log_file j = ''/tmp/parcels/'' @ key @ ''.log'')"
proof -
  have j: "jit AdvectionEE_jit = Some AdvectionEE_code"
    by (simp add: AdvectionEE_jit_def)
  have c1: "cache_key example_env AdvectionEE_jit
     = Inr ''md5:JITParticleAdvectionEEJITParticle:lon:latU:Geographic-V:GeographicPolar''"
    using cache_key_md5 [THEN conjunct1, of AdvectionEE_jit AdvectionEE_code example_env] j
    by (simp add: AdvectionEE_jit_def AdvectionEE_code_def example_env_def jit_ptype_def)
  have c2: "\<exists>j key. jit AdvectionEE_jit = Some j \<and> cache_key example_env AdvectionEE_jit = Inr key
         \<and> src_file j = ''/tmp/parcels/'' @ key @ ''.c''
         \<and> lib_file j = ''/tmp/parcels/'' @ key @ ''.so''
         \<and> log_file j = ''/tmp/parcels/'' @ key @ ''.log''"
    using cache_key_md5 [THEN conjunct2, of example_env "()" jit_ptype
                           "Some (pyfunction_of ''AdvectionEE'' ''pass'')" None None None None
                           "[]" AdvectionEE_jit "[]"]
      Kernel_init_AdvectionEE
    by (simp add: jit_ptype_def example_env_def)
  from c1 c2 show ?thesis by blast
qed

section \<open>The states after \<^verbatim>\<open>execute\<close>\<close>

text \<open>
  Claim C10. Whenever \<^verbatim>\<open>Kernel.execute\<close> returns normally, every particle that is still
  in the particle set has the state \<open>Success\<close> or \<open>Repeat\<close>: no particle with the state
  \<open>Delete\<close>, \<open>ErrorOutOfBounds\<close> or \<open>Error\<close> is left. This holds on the interpreted and on
  the native path, for every recovery map and every user context.
\<close>

theorem execute_returns_live_states:
  assumes "execute base self pset endtime d recovery w = Some (Inr out, w')"
  shows "\<forall>p \<in> set (particles out). state p = Success \<or> state p = Repeat"
proof -
  from assms obtain pset1 rm w1 where
    "recovery_loop self endtime d rm (remove_deleted pset1)
       (error_particles (remove_deleted pset1)) w1 = Some (Inr out, w')"
    unfolding execute_def Let_def by (auto split: option.splits sum.splits prod.splits)
  then have "error_particles out = []"
    by (rule recovery_loop_no_errors)
  then show ?thesis by (simp only: error_particles_Nil)
qed

lemma execute_DeleteKernel:
  "execute Map.empty (scipy_kernel ''DeleteKernel'' DeleteKernel)
     (pset_of [particle_at (1/10) 0 1 Success, particle_at (1/2) 0 1 Success]) 1 1 None []
   = Some (Inr (pset_of [particle_at (1/10) 1 1 Success]), [])"
  by (simp add: execute_def core_loop_def execute_python_def time_loop.simps loop_body_def
      try_pyfunc_def remove_deleted_def remove_def error_particles_def recovery_loop.simps
      scipy_kernel_def scipy_ptype_def pset_of_def particle_at_def DeleteKernel_def dt_pos_of_def
      sign_of_def enumerate_eq_zip)

theorem execute_returns_live_states_witness:
  "execute Map.empty (scipy_kernel ''DeleteKernel'' DeleteKernel)
     (pset_of [particle_at (1/10) 0 1 Success, particle_at (1/2) 0 1 Success]) 1 1 None []
   = Some (Inr (pset_of [particle_at (1/10) 1 1 Success]), [])
   \<and> list_all (\<lambda>p. state p = Success \<or> state p = Repeat)
         (particles (pset_of [particle_at (1/10) 1 1 Success]))"
  using execute_returns_live_states [OF execute_DeleteKernel] execute_DeleteKernel
  by (simp add: list_all_iff)

end
